theory Spec2Isabelle
  imports Main "HOL-Library.Word"
begin

unbundle bit_operations_syntax

section \<open>Data model\<close>

text \<open>
  The repository holds two near-identical clock firmwares for the ATmega328p:
  \<^item> the seconds clock (\<^verbatim>\<open>src/main.c\<close>): \<^verbatim>\<open>volatile uint8_t time, step\<close>, driven by the
    16-bit Timer1 (\<^verbatim>\<open>TCCR1B\<close>, \<^verbatim>\<open>TCNT1\<close>, \<^verbatim>\<open>OCR1A\<close>);
  \<^item> the milliseconds clock: \<^verbatim>\<open>volatile uint16_t time, step\<close>, driven by the 8-bit
    Timer0 (\<^verbatim>\<open>TCCR0B\<close>, \<^verbatim>\<open>TCNT0\<close>, \<^verbatim>\<open>OCR0A\<close>).
  The global variables and the two display ports are the same in both files and form
  the common part of the state; each variant extends it with its timer registers.
  Registers that are written once in \<^verbatim>\<open>main\<close> and never read by any handler
  (\<^verbatim>\<open>DDRx\<close>, \<^verbatim>\<open>PORTC\<close>, \<^verbatim>\<open>TCCRnA\<close>, \<^verbatim>\<open>TIMSKn\<close>, \<^verbatim>\<open>PCICR\<close>, \<^verbatim>\<open>PCMSK1\<close>) are left out.
  Unsigned C integers are words: \<open>+\<close> and \<open>-\<close> wrap, and the C assignment
  \<^verbatim>\<open>step = -1\<close> stores the word \<open>- 1\<close> (255, respectively 65535).
\<close>

type_synonym u8 = "8 word"
type_synonym u16 = "16 word"

record 'w clock_vars =
  time :: 'w
  step :: 'w
  clock_running :: bool
  clock_ascending :: bool
  start_stop_button_was_pressed :: bool
  swap_mode_button_was_pressed :: bool
  reset_button_was_pressed :: bool
  PORTB :: u8
  PORTD :: u8

record seconds_clock = "u8 clock_vars" +
  TCCR1B :: u8
  TCNT1 :: u16
  OCR1A :: u16

record millis_clock = "u16 clock_vars" +
  TCCR0B :: u8
  TCNT0 :: u8
  OCR0A :: u8

text \<open>
  The source writes register values and the digit patterns as binary literals
  \<^verbatim>\<open>0b00001011\<close>; \<open>binary_literal\<close> reads the digits after \<^verbatim>\<open>0b\<close>, most significant
  first.
\<close>

definition binary_literal :: "string \<Rightarrow> u8" where
  "binary_literal cs = foldl (\<lambda>w c. 2 * w + (if c = CHR ''1'' then 1 else 0)) 0 cs"

text \<open>\<^verbatim>\<open>#define TIMER_TOP (15625 - 1)\<close> and \<^verbatim>\<open>#define TIMER_TOP (125 - 1)\<close>.\<close>

definition TIMER_TOP_s :: u16 where
  "TIMER_TOP_s = 15625 - 1"

definition TIMER_TOP_ms :: u8 where
  "TIMER_TOP_ms = 125 - 1"

section \<open>Timer tick handlers\<close>

text \<open>\<^verbatim>\<open>ISR(TIMER1_COMPA_vect)\<close> of the seconds clock.\<close>

definition TIMER1_COMPA_vect :: "seconds_clock \<Rightarrow> seconds_clock" where
  "TIMER1_COMPA_vect s =
    (let s1 = s\<lparr>time := time s + step s\<rparr>;
         s2 = (if time s1 = 60 then s1\<lparr>time := 0\<rparr> else s1);
         s3 = (if time s2 = 255 then s2\<lparr>time := 59\<rparr> else s2)
     in s3)"

text \<open>\<^verbatim>\<open>ISR(TIMER0_COMPA_vect)\<close> of the milliseconds clock.\<close>

definition TIMER0_COMPA_vect :: "millis_clock \<Rightarrow> millis_clock" where
  "TIMER0_COMPA_vect s =
    (let s1 = s\<lparr>time := time s + step s\<rparr>;
         s2 = (if time s1 = 60000 then s1\<lparr>time := 0\<rparr> else s1);
         s3 = (if time s2 = 65535 then s2\<lparr>time := 59999\<rparr> else s2)
     in s3)"

section \<open>Pin-change handlers\<close>

text \<open>
  \<^verbatim>\<open>ISR(PCINT1_vect)\<close> reads the volatile input register \<^verbatim>\<open>PINC\<close> three times, once
  per button; the three values read are the arguments \<open>pinc0\<close>, \<open>pinc1\<close>, \<open>pinc2\<close>.
  A button is pressed when its pin reads 0. The handler is three \<^verbatim>\<open>if\<close> blocks, run
  in order, followed by the unconditional update of the three snapshots. Each block is
  a definition of its own, taking the button's current level.
\<close>

text \<open>Seconds clock: \<^verbatim>\<open>TCCR1B &= ~((1<<1) | (1<<0))\<close> stops, \<^verbatim>\<open>TCCR1B |= (1<<1) | (1<<0)\<close> starts.\<close>

definition start_stop_s :: "bool \<Rightarrow> seconds_clock \<Rightarrow> seconds_clock" where
  "start_stop_s is_pressed s =
    (if is_pressed \<and> \<not> start_stop_button_was_pressed s then
       (if clock_running s
        then s\<lparr>TCCR1B := TCCR1B s AND NOT (push_bit 1 1 OR push_bit 0 1), clock_running := False\<rparr>
        else s\<lparr>TCCR1B := TCCR1B s OR (push_bit 1 1 OR push_bit 0 1), clock_running := True\<rparr>)
     else s)"

definition swap_mode_s :: "bool \<Rightarrow> seconds_clock \<Rightarrow> seconds_clock" where
  "swap_mode_s is_pressed s =
    (if is_pressed \<and> \<not> swap_mode_button_was_pressed s then
       (if clock_ascending s
        then s\<lparr>TCNT1 := TIMER_TOP_s - TCNT1 s, step := - 1, clock_ascending := False\<rparr>
        else s\<lparr>TCNT1 := TIMER_TOP_s - TCNT1 s, step := 1, clock_ascending := True\<rparr>)
     else s)"

definition reset_s :: "bool \<Rightarrow> seconds_clock \<Rightarrow> seconds_clock" where
  "reset_s is_pressed s =
    (if is_pressed \<and> \<not> reset_button_was_pressed s
     then s\<lparr>TCNT1 := 0, time := 0\<rparr>
     else s)"

definition PCINT1_vect_s :: "u8 \<Rightarrow> u8 \<Rightarrow> u8 \<Rightarrow> seconds_clock \<Rightarrow> seconds_clock" where
  "PCINT1_vect_s pinc0 pinc1 pinc2 s =
    (let start_stop_button_is_pressed = (pinc0 AND push_bit 0 1 = 0);
         swap_mode_button_is_pressed = (pinc1 AND push_bit 1 1 = 0);
         reset_button_is_pressed = (pinc2 AND push_bit 2 1 = 0);
         s1 = start_stop_s start_stop_button_is_pressed s;
         s2 = swap_mode_s swap_mode_button_is_pressed s1;
         s3 = reset_s reset_button_is_pressed s2
     in s3\<lparr>start_stop_button_was_pressed := start_stop_button_is_pressed,
           swap_mode_button_was_pressed := swap_mode_button_is_pressed,
           reset_button_was_pressed := reset_button_is_pressed\<rparr>)"

text \<open>Milliseconds clock: \<^verbatim>\<open>TCCR0B &= ~(1<<1)\<close> stops, \<^verbatim>\<open>TCCR0B |= 1<<1\<close> starts.\<close>

definition start_stop_ms :: "bool \<Rightarrow> millis_clock \<Rightarrow> millis_clock" where
  "start_stop_ms is_pressed s =
    (if is_pressed \<and> \<not> start_stop_button_was_pressed s then
       (if clock_running s
        then s\<lparr>TCCR0B := TCCR0B s AND NOT (push_bit 1 1), clock_running := False\<rparr>
        else s\<lparr>TCCR0B := TCCR0B s OR push_bit 1 1, clock_running := True\<rparr>)
     else s)"

definition swap_mode_ms :: "bool \<Rightarrow> millis_clock \<Rightarrow> millis_clock" where
  "swap_mode_ms is_pressed s =
    (if is_pressed \<and> \<not> swap_mode_button_was_pressed s then
       (if clock_ascending s
        then s\<lparr>TCNT0 := TIMER_TOP_ms - TCNT0 s, step := - 1, clock_ascending := False\<rparr>
        else s\<lparr>TCNT0 := TIMER_TOP_ms - TCNT0 s, step := 1, clock_ascending := True\<rparr>)
     else s)"

definition reset_ms :: "bool \<Rightarrow> millis_clock \<Rightarrow> millis_clock" where
  "reset_ms is_pressed s =
    (if is_pressed \<and> \<not> reset_button_was_pressed s
     then s\<lparr>TCNT0 := 0, time := 0\<rparr>
     else s)"

definition PCINT1_vect_ms :: "u8 \<Rightarrow> u8 \<Rightarrow> u8 \<Rightarrow> millis_clock \<Rightarrow> millis_clock" where
  "PCINT1_vect_ms pinc0 pinc1 pinc2 s =
    (let start_stop_button_is_pressed = (pinc0 AND push_bit 0 1 = 0);
         swap_mode_button_is_pressed = (pinc1 AND push_bit 1 1 = 0);
         reset_button_is_pressed = (pinc2 AND push_bit 2 1 = 0);
         s1 = start_stop_ms start_stop_button_is_pressed s;
         s2 = swap_mode_ms swap_mode_button_is_pressed s1;
         s3 = reset_ms reset_button_is_pressed s2
     in s3\<lparr>start_stop_button_was_pressed := start_stop_button_is_pressed,
           swap_mode_button_was_pressed := swap_mode_button_is_pressed,
           reset_button_was_pressed := reset_button_is_pressed\<rparr>)"

section \<open>Start-up state\<close>

text \<open>
  The state when \<^verbatim>\<open>main\<close> reaches its loop: the initialisers of the globals and the
  register writes of the set-up code (\<^verbatim>\<open>TCCR1B = 0b00001011\<close>, \<^verbatim>\<open>TCCR0B = 0b00000010\<close>,
  counter 0, compare register \<^verbatim>\<open>TIMER_TOP\<close>, both display ports 0).
\<close>

definition main_init_s :: seconds_clock where
  "main_init_s =
    \<lparr>time = 0, step = 1, clock_running = True, clock_ascending = True,
     start_stop_button_was_pressed = False, swap_mode_button_was_pressed = False,
     reset_button_was_pressed = False,
     PORTB = binary_literal ''00000000'', PORTD = binary_literal ''00000000'',
     TCCR1B = binary_literal ''00001011'', TCNT1 = 0, OCR1A = TIMER_TOP_s\<rparr>"

definition main_init_ms :: millis_clock where
  "main_init_ms =
    \<lparr>time = 0, step = 1, clock_running = True, clock_ascending = True,
     start_stop_button_was_pressed = False, swap_mode_button_was_pressed = False,
     reset_button_was_pressed = False,
     PORTB = binary_literal ''00000000'', PORTD = binary_literal ''00000000'',
     TCCR0B = binary_literal ''00000010'', TCNT0 = 0, OCR0A = TIMER_TOP_ms\<rparr>"

section \<open>Display loop\<close>

text \<open>
  \<^verbatim>\<open>uint8_t digits[10]\<close>, the 7-segment patterns of the digits 0 to 9. A read
  \<^verbatim>\<open>digits[i]\<close> with \<open>i\<close> past the end of the array is undefined in C: \<open>digits_at\<close>
  returns \<open>None\<close> there.
\<close>

definition digits :: "u8 list" where
  "digits = map binary_literal
    [''00111111'',
     ''00000110'',
     ''01011011'',
     ''01001111'',
     ''01100110'',
     ''01101101'',
     ''01111101'',
     ''00000111'',
     ''01111111'',
     ''01100111'']"

definition digits_at :: "u8 \<Rightarrow> u8 option" where
  "digits_at i = (if unat i < length digits then Some (digits ! unat i) else None)"

text \<open>
  One iteration of the \<^verbatim>\<open>while (true)\<close> loop of the seconds clock: \<^verbatim>\<open>current_time\<close> is
  read once from \<^verbatim>\<open>time\<close>; \<^verbatim>\<open>%\<close> and \<^verbatim>\<open>/\<close> on an unsigned byte are \<open>mod\<close> and \<open>div\<close>
  on the word.
\<close>

definition main_loop_s :: "seconds_clock \<Rightarrow> seconds_clock option" where
  "main_loop_s s =
    (let current_time = time s;
         time_digit_0 = current_time mod 10;
         time_digit_1 = current_time div 10
     in case digits_at time_digit_0 of
          None \<Rightarrow> None
        | Some d0 \<Rightarrow>
            (case digits_at time_digit_1 of
               None \<Rightarrow> None
             | Some d1 \<Rightarrow> Some (s\<lparr>PORTB := d0, PORTD := d1\<rparr>)))"

text \<open>
  One iteration of the loop of the milliseconds clock. The expression \<^verbatim>\<open>time / 1000\<close>
  reads the 16-bit volatile \<^verbatim>\<open>time\<close>, which the 8-bit CPU loads as two bytes. \<^verbatim>\<open>main\<close>
  enables interrupts with \<^verbatim>\<open>sei()\<close> before the loop and the loop never disables them, so
  the tick handler can run between the two loads: \<open>irq\<close> says whether it does. The
  order of the two loads is the compiler's choice, so both orders are modelled. The
  quotient is assigned to the \<^verbatim>\<open>uint8_t current_time\<close>.
\<close>

datatype byte_order = Low_first | High_first

definition low_byte :: "u16 \<Rightarrow> u8" where
  "low_byte w = ucast w"

definition high_byte :: "u16 \<Rightarrow> u8" where
  "high_byte w = ucast (drop_bit 8 w)"

definition join_bytes :: "u8 \<Rightarrow> u8 \<Rightarrow> u16" where
  "join_bytes hi lo = push_bit 8 (ucast hi) OR ucast lo"

definition read_time_ms :: "byte_order \<Rightarrow> bool \<Rightarrow> millis_clock \<Rightarrow> u16 \<times> millis_clock" where
  "read_time_ms bo irq s =
    (let s' = (if irq then TIMER0_COMPA_vect s else s)
     in case bo of
          Low_first \<Rightarrow> (join_bytes (high_byte (time s')) (low_byte (time s)), s')
        | High_first \<Rightarrow> (join_bytes (high_byte (time s)) (low_byte (time s')), s'))"

definition main_loop_ms :: "byte_order \<Rightarrow> bool \<Rightarrow> millis_clock \<Rightarrow> millis_clock option" where
  "main_loop_ms bo irq s =
    (let (t, s') = read_time_ms bo irq s;
         current_time = (ucast (t div 1000) :: u8);
         time_digit_0 = current_time mod 10;
         time_digit_1 = current_time div 10
     in case digits_at time_digit_0 of
          None \<Rightarrow> None
        | Some d0 \<Rightarrow>
            (case digits_at time_digit_1 of
               None \<Rightarrow> None
             | Some d1 \<Rightarrow> Some (s'\<lparr>PORTB := d0, PORTD := d1\<rparr>)))"

section \<open>Runs of the clock\<close>

text \<open>
  The handlers are called by the hardware, and the counter register of the timer
  (\<^verbatim>\<open>TCNT1\<close>, \<^verbatim>\<open>TCNT0\<close>) is written by the timer as well as by the program. A run of
  the clock is a list of events applied to the start-up state: the timer leaving
  any value in its counter register, a call of the tick handler, or a pin-change
  interrupt with the three values it reads from \<^verbatim>\<open>PINC\<close>. Nothing is assumed about when the
  hardware delivers an interrupt. The display loop is not an event: it writes only the
  two display ports, which no handler reads.
\<close>

datatype 'c event = Timer_count 'c | Compare_match | Pin_change u8 u8 u8

fun fire_s :: "u16 event \<Rightarrow> seconds_clock \<Rightarrow> seconds_clock" where
  "fire_s (Timer_count v) s = s\<lparr>TCNT1 := v\<rparr>"
| "fire_s Compare_match s = TIMER1_COMPA_vect s"
| "fire_s (Pin_change pinc0 pinc1 pinc2) s = PCINT1_vect_s pinc0 pinc1 pinc2 s"

fun fire_ms :: "u8 event \<Rightarrow> millis_clock \<Rightarrow> millis_clock" where
  "fire_ms (Timer_count v) s = s\<lparr>TCNT0 := v\<rparr>"
| "fire_ms Compare_match s = TIMER0_COMPA_vect s"
| "fire_ms (Pin_change pinc0 pinc1 pinc2) s = PCINT1_vect_ms pinc0 pinc1 pinc2 s"

fun run_s :: "u16 event list \<Rightarrow> seconds_clock \<Rightarrow> seconds_clock" where
  "run_s [] s = s"
| "run_s (e # es) s = run_s es (fire_s e s)"

fun run_ms :: "u8 event list \<Rightarrow> millis_clock \<Rightarrow> millis_clock" where
  "run_ms [] s = s"
| "run_ms (e # es) s = run_ms es (fire_ms e s)"

section \<open>State predicates\<close>

definition time_in_range_s :: "seconds_clock \<Rightarrow> bool" where
  "time_in_range_s s \<longleftrightarrow> unat (time s) < 60"

definition time_in_range_ms :: "millis_clock \<Rightarrow> bool" where
  "time_in_range_ms s \<longleftrightarrow> unat (time s) < 60000"

text \<open>\<open>step\<close> is a unit and \<open>clock_ascending\<close> mirrors its sign.\<close>

definition direction_ok :: "('a::len word, 'z) clock_vars_scheme \<Rightarrow> bool" where
  "direction_ok s \<longleftrightarrow> (step s = 1 \<or> step s = - 1) \<and> (clock_ascending s \<longleftrightarrow> step s = 1)"

text \<open>
  While the clock runs the control register holds what \<^verbatim>\<open>main\<close> wrote to it
  (\<^verbatim>\<open>0b00001011\<close>, respectively \<^verbatim>\<open>0b00000010\<close>); while the clock is stopped it holds
  the same with the bits of the start/stop mask cleared.
\<close>

definition timer_cfg_s :: "seconds_clock \<Rightarrow> bool" where
  "timer_cfg_s s \<longleftrightarrow> TCCR1B s = (if clock_running s then 11 else 8)"

definition timer_cfg_ms :: "millis_clock \<Rightarrow> bool" where
  "timer_cfg_ms s \<longleftrightarrow> TCCR0B s = (if clock_running s then 2 else 0)"

text \<open>A press edge: the button reads pressed and its snapshot says it was not.\<close>

definition start_stop_edge :: "u8 \<Rightarrow> ('w, 'z) clock_vars_scheme \<Rightarrow> bool" where
  "start_stop_edge pinc0 s \<longleftrightarrow> pinc0 AND 1 = 0 \<and> \<not> start_stop_button_was_pressed s"

definition swap_mode_edge :: "u8 \<Rightarrow> ('w, 'z) clock_vars_scheme \<Rightarrow> bool" where
  "swap_mode_edge pinc1 s \<longleftrightarrow> pinc1 AND 2 = 0 \<and> \<not> swap_mode_button_was_pressed s"

definition reset_edge :: "u8 \<Rightarrow> ('w, 'z) clock_vars_scheme \<Rightarrow> bool" where
  "reset_edge pinc2 s \<longleftrightarrow> pinc2 AND 4 = 0 \<and> \<not> reset_button_was_pressed s"

section \<open>Word facts\<close>

lemma binary_literal_config [simp]:
  "binary_literal ''00001011'' = 11"
  "binary_literal ''00000010'' = 2"
  "binary_literal ''00000000'' = 0"
  by (simp_all add: binary_literal_def)

lemma minus_one_u8: "(- 1 :: u8) = 255"
  by simp

lemma minus_one_u16: "(- 1 :: u16) = 65535"
  by simp

section \<open>The tick handler wraps\<close>

lemma TIMER1_up:
  assumes "unat (time s) < 60" and "step s = 1"
  shows "unat (time (TIMER1_COMPA_vect s)) = (unat (time s) + 1) mod 60"
proof (cases "unat (time s) = 59")
  case True
  with assms show ?thesis
    by (simp add: TIMER1_COMPA_vect_def Let_def word_unat_eq_iff unat_word_ariths)
next
  case False
  with assms show ?thesis
    by (simp add: TIMER1_COMPA_vect_def Let_def word_unat_eq_iff unat_word_ariths)
qed

lemma TIMER1_down:
  assumes "unat (time s) < 60" and "step s = - 1"
  shows "unat (time (TIMER1_COMPA_vect s)) = (unat (time s) + 60 - 1) mod 60"
proof (cases "unat (time s) = 0")
  case True
  with assms show ?thesis
    by (simp add: TIMER1_COMPA_vect_def Let_def word_unat_eq_iff unat_word_ariths minus_one_u8)
next
  case False
  with assms show ?thesis
    by (simp add: TIMER1_COMPA_vect_def Let_def word_unat_eq_iff unat_word_ariths
        minus_one_u8 mod_if)
qed

lemma TIMER0_up:
  assumes "unat (time s) < 60000" and "step s = 1"
  shows "unat (time (TIMER0_COMPA_vect s)) = (unat (time s) + 1) mod 60000"
proof (cases "unat (time s) = 59999")
  case True
  with assms show ?thesis
    by (simp add: TIMER0_COMPA_vect_def Let_def word_unat_eq_iff unat_word_ariths)
next
  case False
  with assms show ?thesis
    by (simp add: TIMER0_COMPA_vect_def Let_def word_unat_eq_iff unat_word_ariths)
qed

lemma TIMER0_down:
  assumes "unat (time s) < 60000" and "step s = - 1"
  shows "unat (time (TIMER0_COMPA_vect s)) = (unat (time s) + 60000 - 1) mod 60000"
proof (cases "unat (time s) = 0")
  case True
  with assms show ?thesis
    by (simp add: TIMER0_COMPA_vect_def Let_def word_unat_eq_iff unat_word_ariths minus_one_u16)
next
  case False
  with assms show ?thesis
    by (simp add: TIMER0_COMPA_vect_def Let_def word_unat_eq_iff unat_word_ariths
        minus_one_u16 mod_if)
qed

lemma up_int:
  fixes t t' :: "'a::len word"
  assumes h: "unat t' = (unat t + 1) mod n"
  shows "uint t' = (uint t + 1) mod int n"
proof -
  have "uint t' = int (unat t')"
    by (simp only: uint_nat)
  also have "\<dots> = int ((unat t + 1) mod n)"
    by (simp only: h)
  also have "\<dots> = (int (unat t) + 1) mod int n"
    by (simp only: zmod_int of_nat_add of_nat_1)
  finally show ?thesis
    by (simp only: uint_nat)
qed

lemma down_int:
  fixes t t' :: "'a::len word"
  assumes n: "0 < n" and h: "unat t' = (unat t + n - 1) mod n"
  shows "uint t' = (uint t - 1 + int n) mod int n"
proof -
  have "uint t' = int (unat t')"
    by (simp only: uint_nat)
  also have "\<dots> = int ((unat t + n - 1) mod n)"
    by (simp only: h)
  also have "\<dots> = int (unat t + n - 1) mod int n"
    by (simp only: zmod_int)
  also have "int (unat t + n - 1) = int (unat t) - 1 + int n"
    using n by linarith
  finally show ?thesis
    by (simp only: uint_nat)
qed

text \<open>
  Claim C1. For every \<open>time\<close> in \<open>[0, LIMIT)\<close>, with \<open>LIMIT = 60\<close> for the seconds clock
  and \<open>LIMIT = 60000\<close> for the milliseconds clock, one call of the tick handler leaves
  \<open>(time + 1) mod LIMIT\<close> in \<open>time\<close> when \<open>step\<close> is \<open>+1\<close> and
  \<open>(time - 1 + LIMIT) mod LIMIT\<close> when \<open>step\<close> is \<open>-1\<close>. The values are read as
  integers (\<open>uint\<close>), so the subtraction is the mathematical one.
\<close>

theorem tick_wraps:
  "(\<forall>s. unat (time s) < 60 \<and> step s = 1 \<longrightarrow>
      uint (time (TIMER1_COMPA_vect s)) = (uint (time s) + 1) mod 60) \<and>
   (\<forall>s. unat (time s) < 60 \<and> step s = - 1 \<longrightarrow>
      uint (time (TIMER1_COMPA_vect s)) = (uint (time s) - 1 + 60) mod 60) \<and>
   (\<forall>s. unat (time s) < 60000 \<and> step s = 1 \<longrightarrow>
      uint (time (TIMER0_COMPA_vect s)) = (uint (time s) + 1) mod 60000) \<and>
   (\<forall>s. unat (time s) < 60000 \<and> step s = - 1 \<longrightarrow>
      uint (time (TIMER0_COMPA_vect s)) = (uint (time s) - 1 + 60000) mod 60000)"
proof (intro conjI allI impI)
  fix s :: seconds_clock
  assume "unat (time s) < 60 \<and> step s = 1"
  then have "unat (time (TIMER1_COMPA_vect s)) = (unat (time s) + 1) mod 60"
    by (simp add: TIMER1_up)
  from up_int [OF this] show "uint (time (TIMER1_COMPA_vect s)) = (uint (time s) + 1) mod 60"
    by simp
next
  fix s :: seconds_clock
  assume "unat (time s) < 60 \<and> step s = - 1"
  then have "unat (time (TIMER1_COMPA_vect s)) = (unat (time s) + 60 - 1) mod 60"
    by (simp add: TIMER1_down)
  from down_int [OF _ this]
  show "uint (time (TIMER1_COMPA_vect s)) = (uint (time s) - 1 + 60) mod 60"
    by simp
next
  fix s :: millis_clock
  assume "unat (time s) < 60000 \<and> step s = 1"
  then have "unat (time (TIMER0_COMPA_vect s)) = (unat (time s) + 1) mod 60000"
    by (simp add: TIMER0_up)
  from up_int [OF this]
  show "uint (time (TIMER0_COMPA_vect s)) = (uint (time s) + 1) mod 60000"
    by simp
next
  fix s :: millis_clock
  assume "unat (time s) < 60000 \<and> step s = - 1"
  then have "unat (time (TIMER0_COMPA_vect s)) = (unat (time s) + 60000 - 1) mod 60000"
    by (simp add: TIMER0_down)
  from down_int [OF _ this]
  show "uint (time (TIMER0_COMPA_vect s)) = (uint (time s) - 1 + 60000) mod 60000"
    by simp
qed

theorem tick_wraps_witness:
  "unat (time (main_init_s\<lparr>time := 59\<rparr>)) < 60 \<and> step (main_init_s\<lparr>time := 59\<rparr>) = 1 \<and>
   uint (time (TIMER1_COMPA_vect (main_init_s\<lparr>time := 59\<rparr>))) = 0 \<and>
   unat (time (main_init_s\<lparr>step := - 1\<rparr>)) < 60 \<and> step (main_init_s\<lparr>step := - 1\<rparr>) = - 1 \<and>
   uint (time (TIMER1_COMPA_vect (main_init_s\<lparr>step := - 1\<rparr>))) = 59 \<and>
   unat (time (main_init_ms\<lparr>time := 59999\<rparr>)) < 60000 \<and> step (main_init_ms\<lparr>time := 59999\<rparr>) = 1 \<and>
   uint (time (TIMER0_COMPA_vect (main_init_ms\<lparr>time := 59999\<rparr>))) = 0 \<and>
   unat (time (main_init_ms\<lparr>step := - 1\<rparr>)) < 60000 \<and> step (main_init_ms\<lparr>step := - 1\<rparr>) = - 1 \<and>
   uint (time (TIMER0_COMPA_vect (main_init_ms\<lparr>step := - 1\<rparr>))) = 59999"
proof -
  have h1: "unat (time (main_init_s\<lparr>time := 59\<rparr>)) < 60 \<and> step (main_init_s\<lparr>time := 59\<rparr>) = 1"
    by (simp add: main_init_s_def)
  have h2: "unat (time (main_init_s\<lparr>step := - 1\<rparr>)) < 60 \<and> step (main_init_s\<lparr>step := - 1\<rparr>) = - 1"
    by (simp add: main_init_s_def)
  have h3: "unat (time (main_init_ms\<lparr>time := 59999\<rparr>)) < 60000 \<and> step (main_init_ms\<lparr>time := 59999\<rparr>) = 1"
    by (simp add: main_init_ms_def)
  have h4: "unat (time (main_init_ms\<lparr>step := - 1\<rparr>)) < 60000 \<and> step (main_init_ms\<lparr>step := - 1\<rparr>) = - 1"
    by (simp add: main_init_ms_def)
  have c1: "uint (time (TIMER1_COMPA_vect (main_init_s\<lparr>time := 59\<rparr>))) = 0"
    using tick_wraps [THEN conjunct1, rule_format, OF h1] by (simp add: main_init_s_def)
  have c2: "uint (time (TIMER1_COMPA_vect (main_init_s\<lparr>step := - 1\<rparr>))) = 59"
    using tick_wraps [THEN conjunct2, THEN conjunct1, rule_format, OF h2]
    by (simp add: main_init_s_def)
  have c3: "uint (time (TIMER0_COMPA_vect (main_init_ms\<lparr>time := 59999\<rparr>))) = 0"
    using tick_wraps [THEN conjunct2, THEN conjunct2, THEN conjunct1, rule_format, OF h3]
    by (simp add: main_init_ms_def)
  have c4: "uint (time (TIMER0_COMPA_vect (main_init_ms\<lparr>step := - 1\<rparr>))) = 59999"
    using tick_wraps [THEN conjunct2, THEN conjunct2, THEN conjunct2, rule_format, OF h4]
    by (simp add: main_init_ms_def)
  from h1 h2 h3 h4 c1 c2 c3 c4 show ?thesis
    by (simp only: simp_thms)
qed

subsection \<open>What each operation leaves alone\<close>

lemma TIMER1_frame:
  "step (TIMER1_COMPA_vect s) = step s"
  "clock_running (TIMER1_COMPA_vect s) = clock_running s"
  "clock_ascending (TIMER1_COMPA_vect s) = clock_ascending s"
  "TCCR1B (TIMER1_COMPA_vect s) = TCCR1B s"
  "TCNT1 (TIMER1_COMPA_vect s) = TCNT1 s"
  by (simp_all add: TIMER1_COMPA_vect_def Let_def)

lemma TIMER0_frame:
  "step (TIMER0_COMPA_vect s) = step s"
  "clock_running (TIMER0_COMPA_vect s) = clock_running s"
  "clock_ascending (TIMER0_COMPA_vect s) = clock_ascending s"
  "TCCR0B (TIMER0_COMPA_vect s) = TCCR0B s"
  "TCNT0 (TIMER0_COMPA_vect s) = TCNT0 s"
  by (simp_all add: TIMER0_COMPA_vect_def Let_def)

lemma PCINT1_s_time:
  "time (PCINT1_vect_s a b c s) = (if reset_edge c s then 0 else time s)"
  by (auto simp add: PCINT1_vect_s_def start_stop_s_def swap_mode_s_def reset_s_def reset_edge_def Let_def)

lemma PCINT1_ms_time:
  "time (PCINT1_vect_ms a b c s) = (if reset_edge c s then 0 else time s)"
  by (auto simp add: PCINT1_vect_ms_def start_stop_ms_def swap_mode_ms_def reset_ms_def reset_edge_def Let_def)

subsection \<open>The range of time\<close>

lemma TIMER1_in_range:
  assumes "time_in_range_s s" and "step s = 1 \<or> step s = - 1"
  shows "time_in_range_s (TIMER1_COMPA_vect s)"
  using assms TIMER1_up [of s] TIMER1_down [of s]
  by (auto simp add: time_in_range_s_def)

lemma TIMER0_in_range:
  assumes "time_in_range_ms s" and "step s = 1 \<or> step s = - 1"
  shows "time_in_range_ms (TIMER0_COMPA_vect s)"
  using assms TIMER0_up [of s] TIMER0_down [of s]
  by (auto simp add: time_in_range_ms_def)

lemma blocks_s_in_range:
  assumes "time_in_range_s s"
  shows "time_in_range_s (start_stop_s p s)" and "time_in_range_s (swap_mode_s p s)"
    and "time_in_range_s (reset_s p s)"
  using assms
  by (simp_all add: time_in_range_s_def start_stop_s_def swap_mode_s_def reset_s_def)

lemma blocks_ms_in_range:
  assumes "time_in_range_ms s"
  shows "time_in_range_ms (start_stop_ms p s)" and "time_in_range_ms (swap_mode_ms p s)"
    and "time_in_range_ms (reset_ms p s)"
  using assms
  by (simp_all add: time_in_range_ms_def start_stop_ms_def swap_mode_ms_def reset_ms_def)

lemma PCINT1_s_in_range:
  "time_in_range_s s \<Longrightarrow> time_in_range_s (PCINT1_vect_s a b c s)"
  by (simp add: time_in_range_s_def PCINT1_s_time)

lemma PCINT1_ms_in_range:
  "time_in_range_ms s \<Longrightarrow> time_in_range_ms (PCINT1_vect_ms a b c s)"
  by (simp add: time_in_range_ms_def PCINT1_ms_time)

subsection \<open>The direction\<close>

lemma PCINT1_s_direction:
  "direction_ok s \<Longrightarrow> direction_ok (PCINT1_vect_s a b c s)"
  by (simp add: direction_ok_def PCINT1_vect_s_def start_stop_s_def swap_mode_s_def reset_s_def Let_def)

lemma PCINT1_ms_direction:
  "direction_ok s \<Longrightarrow> direction_ok (PCINT1_vect_ms a b c s)"
  by (simp add: direction_ok_def PCINT1_vect_ms_def start_stop_ms_def swap_mode_ms_def reset_ms_def Let_def)

lemma TIMER1_direction: "direction_ok s \<Longrightarrow> direction_ok (TIMER1_COMPA_vect s)"
  by (simp add: direction_ok_def TIMER1_frame)

lemma TIMER0_direction: "direction_ok s \<Longrightarrow> direction_ok (TIMER0_COMPA_vect s)"
  by (simp add: direction_ok_def TIMER0_frame)

subsection \<open>Runs\<close>

lemma fire_s_inv:
  assumes "time_in_range_s s \<and> direction_ok s"
  shows "time_in_range_s (fire_s e s) \<and> direction_ok (fire_s e s)"
proof (cases e)
  case (Timer_count v)
  with assms show ?thesis by (simp add: time_in_range_s_def direction_ok_def)
next
  case Compare_match
  with assms show ?thesis
    by (simp add: TIMER1_in_range TIMER1_direction direction_ok_def [of s])
next
  case (Pin_change a b c)
  with assms show ?thesis by (simp add: PCINT1_s_in_range PCINT1_s_direction)
qed

lemma fire_ms_inv:
  assumes "time_in_range_ms s \<and> direction_ok s"
  shows "time_in_range_ms (fire_ms e s) \<and> direction_ok (fire_ms e s)"
proof (cases e)
  case (Timer_count v)
  with assms show ?thesis by (simp add: time_in_range_ms_def direction_ok_def)
next
  case Compare_match
  with assms show ?thesis
    by (simp add: TIMER0_in_range TIMER0_direction direction_ok_def [of s])
next
  case (Pin_change a b c)
  with assms show ?thesis by (simp add: PCINT1_ms_in_range PCINT1_ms_direction)
qed

lemma run_s_inv:
  "time_in_range_s s \<and> direction_ok s \<Longrightarrow>
   time_in_range_s (run_s es s) \<and> direction_ok (run_s es s)"
proof (induction es arbitrary: s)
  case Nil
  then show ?case by simp
next
  case (Cons e es)
  from Cons.prems have "time_in_range_s (fire_s e s) \<and> direction_ok (fire_s e s)"
    by (rule fire_s_inv)
  then show ?case
    using Cons.IH by simp
qed

lemma run_ms_inv:
  "time_in_range_ms s \<and> direction_ok s \<Longrightarrow>
   time_in_range_ms (run_ms es s) \<and> direction_ok (run_ms es s)"
proof (induction es arbitrary: s)
  case Nil
  then show ?case by simp
next
  case (Cons e es)
  from Cons.prems have "time_in_range_ms (fire_ms e s) \<and> direction_ok (fire_ms e s)"
    by (rule fire_ms_inv)
  then show ?case
    using Cons.IH by simp
qed

lemma main_init_s_inv: "time_in_range_s main_init_s \<and> direction_ok main_init_s"
  by (simp add: main_init_s_def time_in_range_s_def direction_ok_def)

lemma main_init_ms_inv: "time_in_range_ms main_init_ms \<and> direction_ok main_init_ms"
  by (simp add: main_init_ms_def time_in_range_ms_def direction_ok_def)

lemma reachable_s_inv:
  "time_in_range_s (run_s es main_init_s) \<and> direction_ok (run_s es main_init_s)"
  using main_init_s_inv by (rule run_s_inv)

lemma reachable_ms_inv:
  "time_in_range_ms (run_ms es main_init_ms) \<and> direction_ok (run_ms es main_init_ms)"
  using main_init_ms_inv by (rule run_ms_inv)

section \<open>Claims about the invariants\<close>

text \<open>
  Claim C2. The counter \<open>time\<close> always lies in \<open>[0, LIMIT)\<close>: it starts at 0, the tick
  handler keeps it in range when \<open>step\<close> is \<open>+1\<close> or \<open>-1\<close>, each of the three button
  blocks and the whole pin-change handler keep it in range, and so it is in range after
  every run of events from the start-up state, in both clocks.
\<close>

theorem time_stays_in_range:
  "time main_init_s = 0 \<and> time main_init_ms = 0 \<and>
   (\<forall>s. time_in_range_s s \<and> (step s = 1 \<or> step s = - 1) \<longrightarrow>
      time_in_range_s (TIMER1_COMPA_vect s)) \<and>
   (\<forall>s p. time_in_range_s s \<longrightarrow>
      time_in_range_s (start_stop_s p s) \<and> time_in_range_s (swap_mode_s p s) \<and>
      time_in_range_s (reset_s p s)) \<and>
   (\<forall>s a b c. time_in_range_s s \<longrightarrow> time_in_range_s (PCINT1_vect_s a b c s)) \<and>
   (\<forall>s. time_in_range_ms s \<and> (step s = 1 \<or> step s = - 1) \<longrightarrow>
      time_in_range_ms (TIMER0_COMPA_vect s)) \<and>
   (\<forall>s p. time_in_range_ms s \<longrightarrow>
      time_in_range_ms (start_stop_ms p s) \<and> time_in_range_ms (swap_mode_ms p s) \<and>
      time_in_range_ms (reset_ms p s)) \<and>
   (\<forall>s a b c. time_in_range_ms s \<longrightarrow> time_in_range_ms (PCINT1_vect_ms a b c s)) \<and>
   (\<forall>es. time_in_range_s (run_s es main_init_s)) \<and>
   (\<forall>es. time_in_range_ms (run_ms es main_init_ms))"
proof (intro conjI allI impI)
  show "time main_init_s = 0"
    by (simp add: main_init_s_def)
  show "time main_init_ms = 0"
    by (simp add: main_init_ms_def)
next
  fix s :: seconds_clock
  assume "time_in_range_s s \<and> (step s = 1 \<or> step s = - 1)"
  then show "time_in_range_s (TIMER1_COMPA_vect s)"
    by (simp add: TIMER1_in_range)
next
  fix s :: millis_clock
  assume "time_in_range_ms s \<and> (step s = 1 \<or> step s = - 1)"
  then show "time_in_range_ms (TIMER0_COMPA_vect s)"
    by (simp add: TIMER0_in_range)
next
  fix es
  show "time_in_range_s (run_s es main_init_s)"
    by (simp add: reachable_s_inv)
next
  fix es
  show "time_in_range_ms (run_ms es main_init_ms)"
    by (simp add: reachable_ms_inv)
qed (simp_all add: blocks_s_in_range blocks_ms_in_range PCINT1_s_in_range PCINT1_ms_in_range)

theorem time_stays_in_range_witness:
  "time_in_range_s (main_init_s\<lparr>time := 59\<rparr>) \<and> step (main_init_s\<lparr>time := 59\<rparr>) = 1 \<and>
   time_in_range_s (TIMER1_COMPA_vect (main_init_s\<lparr>time := 59\<rparr>)) \<and>
   time_in_range_s (reset_s True (main_init_s\<lparr>time := 59\<rparr>)) \<and>
   time_in_range_s (PCINT1_vect_s 126 125 123 (main_init_s\<lparr>time := 59\<rparr>)) \<and>
   time_in_range_ms (main_init_ms\<lparr>step := - 1\<rparr>) \<and> step (main_init_ms\<lparr>step := - 1\<rparr>) = - 1 \<and>
   time_in_range_ms (TIMER0_COMPA_vect (main_init_ms\<lparr>step := - 1\<rparr>)) \<and>
   time_in_range_ms (reset_ms True (main_init_ms\<lparr>step := - 1\<rparr>)) \<and>
   time_in_range_ms (PCINT1_vect_ms 126 125 123 (main_init_ms\<lparr>step := - 1\<rparr>)) \<and>
   time_in_range_s (run_s [Pin_change 127 125 127, Compare_match] main_init_s) \<and>
   time_in_range_ms (run_ms [Pin_change 127 125 127, Compare_match] main_init_ms)"
proof -
  let ?s = "main_init_s\<lparr>time := 59\<rparr>"
  let ?m = "main_init_ms\<lparr>step := - 1\<rparr>"
  have hs: "time_in_range_s ?s" "step ?s = 1"
    by (simp_all add: main_init_s_def time_in_range_s_def)
  have hm: "time_in_range_ms ?m" "step ?m = - 1"
    by (simp_all add: main_init_ms_def time_in_range_ms_def)
  note T = time_stays_in_range
  from hs have "time_in_range_s (TIMER1_COMPA_vect ?s)"
    using T by blast
  moreover from hs have "time_in_range_s (reset_s True ?s)"
    using T by blast
  moreover from hs have "time_in_range_s (PCINT1_vect_s 126 125 123 ?s)"
    using T by blast
  moreover from hm have "time_in_range_ms (TIMER0_COMPA_vect ?m)"
    using T by blast
  moreover from hm have "time_in_range_ms (reset_ms True ?m)"
    using T by blast
  moreover from hm have "time_in_range_ms (PCINT1_vect_ms 126 125 123 ?m)"
    using T by blast
  moreover have "time_in_range_s (run_s [Pin_change 127 125 127, Compare_match] main_init_s)"
    using T by blast
  moreover have "time_in_range_ms (run_ms [Pin_change 127 125 127, Compare_match] main_init_ms)"
    using T by blast
  ultimately show ?thesis
    using hs hm by (simp only: simp_thms)
qed

text \<open>
  Claim C7. \<open>step\<close> is a signed unit, \<open>+1\<close> or \<open>-1\<close>, and \<open>clock_ascending\<close> is true
  exactly when \<open>step\<close> is \<open>+1\<close>. The relation holds at start-up (\<open>step = 1\<close>,
  \<open>clock_ascending = true\<close>), every call of the tick handler and of the pin-change
  handler preserves it, and so it holds after every run of events, in both clocks.
  Read as a signed number (\<open>sint\<close>) the stored word is \<open>1\<close> or \<open>-1\<close>.
\<close>

theorem direction_invariant:
  "step main_init_s = 1 \<and> clock_ascending main_init_s \<and>
   step main_init_ms = 1 \<and> clock_ascending main_init_ms \<and>
   (\<forall>s. direction_ok s \<longrightarrow> direction_ok (TIMER1_COMPA_vect s)) \<and>
   (\<forall>s a b c. direction_ok s \<longrightarrow> direction_ok (PCINT1_vect_s a b c s)) \<and>
   (\<forall>s. direction_ok s \<longrightarrow> direction_ok (TIMER0_COMPA_vect s)) \<and>
   (\<forall>s a b c. direction_ok s \<longrightarrow> direction_ok (PCINT1_vect_ms a b c s)) \<and>
   (\<forall>es. direction_ok (run_s es main_init_s)) \<and>
   (\<forall>es. direction_ok (run_ms es main_init_ms)) \<and>
   (\<forall>s :: seconds_clock. direction_ok s \<longrightarrow>
      (sint (step s) = 1 \<or> sint (step s) = - 1) \<and> (clock_ascending s \<longleftrightarrow> sint (step s) = 1)) \<and>
   (\<forall>s :: millis_clock. direction_ok s \<longrightarrow>
      (sint (step s) = 1 \<or> sint (step s) = - 1) \<and> (clock_ascending s \<longleftrightarrow> sint (step s) = 1))"
proof (intro conjI allI impI)
  fix s :: seconds_clock
  assume "direction_ok s"
  then show "sint (step s) = 1 \<or> sint (step s) = - 1"
    and "clock_ascending s \<longleftrightarrow> sint (step s) = 1"
    by (auto simp add: direction_ok_def)
next
  fix s :: millis_clock
  assume "direction_ok s"
  then show "sint (step s) = 1 \<or> sint (step s) = - 1"
    and "clock_ascending s \<longleftrightarrow> sint (step s) = 1"
    by (auto simp add: direction_ok_def)
next
  fix es
  show "direction_ok (run_s es main_init_s)"
    by (simp add: reachable_s_inv)
next
  fix es
  show "direction_ok (run_ms es main_init_ms)"
    by (simp add: reachable_ms_inv)
qed (simp_all add: main_init_s_def main_init_ms_def TIMER1_direction TIMER0_direction
    PCINT1_s_direction PCINT1_ms_direction)

theorem direction_invariant_witness:
  "direction_ok main_init_s \<and>
   direction_ok (TIMER1_COMPA_vect main_init_s) \<and>
   direction_ok (PCINT1_vect_s 127 125 127 main_init_s) \<and>
   step (PCINT1_vect_s 127 125 127 main_init_s) = - 1 \<and>
   sint (step (PCINT1_vect_s 127 125 127 main_init_s)) = - 1 \<and>
   \<not> clock_ascending (PCINT1_vect_s 127 125 127 main_init_s) \<and>
   direction_ok main_init_ms \<and>
   direction_ok (TIMER0_COMPA_vect main_init_ms) \<and>
   direction_ok (PCINT1_vect_ms 127 125 127 main_init_ms) \<and>
   step (PCINT1_vect_ms 127 125 127 main_init_ms) = - 1 \<and>
   sint (step (PCINT1_vect_ms 127 125 127 main_init_ms)) = - 1 \<and>
   \<not> clock_ascending (PCINT1_vect_ms 127 125 127 main_init_ms)"
proof -
  note T = direction_invariant
  have hs: "direction_ok main_init_s"
    by (simp add: direction_ok_def main_init_s_def)
  have hm: "direction_ok main_init_ms"
    by (simp add: direction_ok_def main_init_ms_def)
  from hs have s1: "direction_ok (TIMER1_COMPA_vect main_init_s)"
    using T by blast
  from hs have s2: "direction_ok (PCINT1_vect_s 127 125 127 main_init_s)"
    using T by blast
  have s3: "step (PCINT1_vect_s 127 125 127 main_init_s) = - 1"
    by (simp add: PCINT1_vect_s_def start_stop_s_def swap_mode_s_def reset_s_def Let_def
        main_init_s_def)
  from s2 have s4: "(sint (step (PCINT1_vect_s 127 125 127 main_init_s)) = 1 \<or>
      sint (step (PCINT1_vect_s 127 125 127 main_init_s)) = - 1) \<and>
     (clock_ascending (PCINT1_vect_s 127 125 127 main_init_s) \<longleftrightarrow>
      sint (step (PCINT1_vect_s 127 125 127 main_init_s)) = 1)"
    using T by blast
  from hm have m1: "direction_ok (TIMER0_COMPA_vect main_init_ms)"
    using T by blast
  from hm have m2: "direction_ok (PCINT1_vect_ms 127 125 127 main_init_ms)"
    using T by blast
  have m3: "step (PCINT1_vect_ms 127 125 127 main_init_ms) = - 1"
    by (simp add: PCINT1_vect_ms_def start_stop_ms_def swap_mode_ms_def reset_ms_def Let_def
        main_init_ms_def)
  from m2 have m4: "(sint (step (PCINT1_vect_ms 127 125 127 main_init_ms)) = 1 \<or>
      sint (step (PCINT1_vect_ms 127 125 127 main_init_ms)) = - 1) \<and>
     (clock_ascending (PCINT1_vect_ms 127 125 127 main_init_ms) \<longleftrightarrow>
      sint (step (PCINT1_vect_ms 127 125 127 main_init_ms)) = 1)"
    using T by blast
  from s3 s4 m3 m4 hs hm s1 s2 m1 m2 show ?thesis
    by simp
qed

section \<open>Claims about the pin-change handler\<close>

lemma PCINT1_s_idem:
  "PCINT1_vect_s a b c (PCINT1_vect_s a b c s) = PCINT1_vect_s a b c s"
  by (simp add: PCINT1_vect_s_def start_stop_s_def swap_mode_s_def reset_s_def Let_def)

lemma PCINT1_ms_idem:
  "PCINT1_vect_ms a b c (PCINT1_vect_ms a b c s) = PCINT1_vect_ms a b c s"
  by (simp add: PCINT1_vect_ms_def start_stop_ms_def swap_mode_ms_def reset_ms_def Let_def)

lemma funpow_idem:
  assumes "\<And>x. f (f x) = f x"
  shows "(f ^^ Suc n) x = f x"
  using assms by (induction n) simp_all

lemma PCINT1_s_snapshots:
  "start_stop_button_was_pressed (PCINT1_vect_s a b c s) \<longleftrightarrow> a AND 1 = 0"
  "swap_mode_button_was_pressed (PCINT1_vect_s a b c s) \<longleftrightarrow> b AND 2 = 0"
  "reset_button_was_pressed (PCINT1_vect_s a b c s) \<longleftrightarrow> c AND 4 = 0"
  by (simp_all add: PCINT1_vect_s_def Let_def)

lemma PCINT1_ms_snapshots:
  "start_stop_button_was_pressed (PCINT1_vect_ms a b c s) \<longleftrightarrow> a AND 1 = 0"
  "swap_mode_button_was_pressed (PCINT1_vect_ms a b c s) \<longleftrightarrow> b AND 2 = 0"
  "reset_button_was_pressed (PCINT1_vect_ms a b c s) \<longleftrightarrow> c AND 4 = 0"
  by (simp_all add: PCINT1_vect_ms_def Let_def)

text \<open>
  Claim C3. Holding a button pressed across several calls of the pin-change handler
  triggers its action at most once. A second call with the same pin levels returns the
  state of the first call unchanged (globals, timer registers and snapshots), and so
  does any number of further calls; the handler stores the level it read in each
  snapshot whether or not there was an edge; and after a call that read a button as
  pressed, that button's block does nothing in the next call, whatever level it is given.
\<close>

theorem held_button_acts_once:
  fixes s :: seconds_clock and m :: millis_clock
  shows
  "PCINT1_vect_s a b c (PCINT1_vect_s a b c s) = PCINT1_vect_s a b c s \<and>
   (PCINT1_vect_s a b c ^^ Suc n) s = PCINT1_vect_s a b c s \<and>
   (start_stop_button_was_pressed (PCINT1_vect_s a b c s) \<longleftrightarrow> a AND 1 = 0) \<and>
   (swap_mode_button_was_pressed (PCINT1_vect_s a b c s) \<longleftrightarrow> b AND 2 = 0) \<and>
   (reset_button_was_pressed (PCINT1_vect_s a b c s) \<longleftrightarrow> c AND 4 = 0) \<and>
   (a AND 1 = 0 \<longrightarrow> start_stop_s p (PCINT1_vect_s a b c s) = PCINT1_vect_s a b c s) \<and>
   (b AND 2 = 0 \<longrightarrow> swap_mode_s p (PCINT1_vect_s a b c s) = PCINT1_vect_s a b c s) \<and>
   (c AND 4 = 0 \<longrightarrow> reset_s p (PCINT1_vect_s a b c s) = PCINT1_vect_s a b c s) \<and>
   PCINT1_vect_ms a b c (PCINT1_vect_ms a b c m) = PCINT1_vect_ms a b c m \<and>
   (PCINT1_vect_ms a b c ^^ Suc n) m = PCINT1_vect_ms a b c m \<and>
   (start_stop_button_was_pressed (PCINT1_vect_ms a b c m) \<longleftrightarrow> a AND 1 = 0) \<and>
   (swap_mode_button_was_pressed (PCINT1_vect_ms a b c m) \<longleftrightarrow> b AND 2 = 0) \<and>
   (reset_button_was_pressed (PCINT1_vect_ms a b c m) \<longleftrightarrow> c AND 4 = 0) \<and>
   (a AND 1 = 0 \<longrightarrow> start_stop_ms p (PCINT1_vect_ms a b c m) = PCINT1_vect_ms a b c m) \<and>
   (b AND 2 = 0 \<longrightarrow> swap_mode_ms p (PCINT1_vect_ms a b c m) = PCINT1_vect_ms a b c m) \<and>
   (c AND 4 = 0 \<longrightarrow> reset_ms p (PCINT1_vect_ms a b c m) = PCINT1_vect_ms a b c m)"
proof -
  have "(PCINT1_vect_s a b c ^^ Suc n) s = PCINT1_vect_s a b c s"
    by (rule funpow_idem) (rule PCINT1_s_idem)
  moreover have "(PCINT1_vect_ms a b c ^^ Suc n) m = PCINT1_vect_ms a b c m"
    by (rule funpow_idem) (rule PCINT1_ms_idem)
  moreover have "a AND 1 = 0 \<longrightarrow> start_stop_s p (PCINT1_vect_s a b c s) = PCINT1_vect_s a b c s"
    by (simp add: start_stop_s_def [of p] PCINT1_s_snapshots)
  moreover have "b AND 2 = 0 \<longrightarrow> swap_mode_s p (PCINT1_vect_s a b c s) = PCINT1_vect_s a b c s"
    by (simp add: swap_mode_s_def [of p] PCINT1_s_snapshots)
  moreover have "c AND 4 = 0 \<longrightarrow> reset_s p (PCINT1_vect_s a b c s) = PCINT1_vect_s a b c s"
    by (simp add: reset_s_def [of p] PCINT1_s_snapshots)
  moreover have "a AND 1 = 0 \<longrightarrow> start_stop_ms p (PCINT1_vect_ms a b c m) = PCINT1_vect_ms a b c m"
    by (simp add: start_stop_ms_def [of p] PCINT1_ms_snapshots)
  moreover have "b AND 2 = 0 \<longrightarrow> swap_mode_ms p (PCINT1_vect_ms a b c m) = PCINT1_vect_ms a b c m"
    by (simp add: swap_mode_ms_def [of p] PCINT1_ms_snapshots)
  moreover have "c AND 4 = 0 \<longrightarrow> reset_ms p (PCINT1_vect_ms a b c m) = PCINT1_vect_ms a b c m"
    by (simp add: reset_ms_def [of p] PCINT1_ms_snapshots)
  ultimately show ?thesis
    by (simp only: PCINT1_s_idem PCINT1_ms_idem PCINT1_s_snapshots PCINT1_ms_snapshots simp_thms)
qed

theorem held_button_acts_once_witness:
  "(126 :: u8) AND 1 = 0 \<and>
   \<not> clock_running (PCINT1_vect_s 126 127 127 main_init_s) \<and>
   \<not> clock_running (PCINT1_vect_s 126 127 127 (PCINT1_vect_s 126 127 127 main_init_s)) \<and>
   start_stop_s True (PCINT1_vect_s 126 127 127 main_init_s) = PCINT1_vect_s 126 127 127 main_init_s \<and>
   \<not> clock_running (PCINT1_vect_ms 126 127 127 main_init_ms) \<and>
   \<not> clock_running (PCINT1_vect_ms 126 127 127 (PCINT1_vect_ms 126 127 127 main_init_ms)) \<and>
   start_stop_ms True (PCINT1_vect_ms 126 127 127 main_init_ms) = PCINT1_vect_ms 126 127 127 main_init_ms"
proof -
  note T = held_button_acts_once [of 126 127 127 main_init_s 0 True main_init_ms]
  have h: "(126 :: u8) AND 1 = 0"
    by simp
  have rs: "\<not> clock_running (PCINT1_vect_s 126 127 127 main_init_s)"
    by (simp add: PCINT1_vect_s_def start_stop_s_def swap_mode_s_def reset_s_def Let_def
        main_init_s_def)
  have rm: "\<not> clock_running (PCINT1_vect_ms 126 127 127 main_init_ms)"
    by (simp add: PCINT1_vect_ms_def start_stop_ms_def swap_mode_ms_def reset_ms_def Let_def
        main_init_ms_def)
  from T have "PCINT1_vect_s 126 127 127 (PCINT1_vect_s 126 127 127 main_init_s)
      = PCINT1_vect_s 126 127 127 main_init_s"
    and "PCINT1_vect_ms 126 127 127 (PCINT1_vect_ms 126 127 127 main_init_ms)
      = PCINT1_vect_ms 126 127 127 main_init_ms"
    by blast+
  moreover from T h
  have "start_stop_s True (PCINT1_vect_s 126 127 127 main_init_s) = PCINT1_vect_s 126 127 127 main_init_s"
    and "start_stop_ms True (PCINT1_vect_ms 126 127 127 main_init_ms) = PCINT1_vect_ms 126 127 127 main_init_ms"
    by blast+
  ultimately show ?thesis
    using h rs rm by (simp only: simp_thms)
qed

text \<open>
  Claim C6. From every prior state, whatever \<open>clock_running\<close>, \<open>clock_ascending\<close>,
  \<open>step\<close>, \<open>time\<close> and the hardware counter hold and whatever the other two buttons
  do in the same call, a press edge of the reset button leaves 0 in the hardware
  counter register and 0 in \<open>time\<close>.
\<close>

theorem reset_zeroes:
  "(\<forall>s a b c. reset_edge c s \<longrightarrow>
      TCNT1 (PCINT1_vect_s a b c s) = 0 \<and> time (PCINT1_vect_s a b c s) = 0) \<and>
   (\<forall>s. \<not> reset_button_was_pressed s \<longrightarrow>
      TCNT1 (reset_s True s) = 0 \<and> time (reset_s True s) = 0) \<and>
   (\<forall>s a b c. reset_edge c s \<longrightarrow>
      TCNT0 (PCINT1_vect_ms a b c s) = 0 \<and> time (PCINT1_vect_ms a b c s) = 0) \<and>
   (\<forall>s. \<not> reset_button_was_pressed s \<longrightarrow>
      TCNT0 (reset_ms True s) = 0 \<and> time (reset_ms True s) = 0)"
proof (intro conjI allI impI)
  fix s :: seconds_clock and a b c :: u8
  assume "reset_edge c s"
  then show "TCNT1 (PCINT1_vect_s a b c s) = 0"
    by (auto simp add: PCINT1_vect_s_def start_stop_s_def swap_mode_s_def reset_s_def
        reset_edge_def Let_def)
next
  fix s :: millis_clock and a b c :: u8
  assume "reset_edge c s"
  then show "TCNT0 (PCINT1_vect_ms a b c s) = 0"
    by (auto simp add: PCINT1_vect_ms_def start_stop_ms_def swap_mode_ms_def reset_ms_def
        reset_edge_def Let_def)
qed (simp_all add: PCINT1_s_time PCINT1_ms_time reset_s_def reset_ms_def)

theorem reset_zeroes_witness:
  "reset_edge 123 (main_init_s\<lparr>time := 42, TCNT1 := 1000, step := - 1, clock_ascending := False\<rparr>) \<and>
   TCNT1 (PCINT1_vect_s 126 125 123
     (main_init_s\<lparr>time := 42, TCNT1 := 1000, step := - 1, clock_ascending := False\<rparr>)) = 0 \<and>
   time (PCINT1_vect_s 126 125 123
     (main_init_s\<lparr>time := 42, TCNT1 := 1000, step := - 1, clock_ascending := False\<rparr>)) = 0 \<and>
   reset_edge 123 (main_init_ms\<lparr>time := 4242, TCNT0 := 100, clock_running := False\<rparr>) \<and>
   TCNT0 (PCINT1_vect_ms 126 125 123
     (main_init_ms\<lparr>time := 4242, TCNT0 := 100, clock_running := False\<rparr>)) = 0 \<and>
   time (PCINT1_vect_ms 126 125 123
     (main_init_ms\<lparr>time := 4242, TCNT0 := 100, clock_running := False\<rparr>)) = 0"
proof -
  let ?s = "main_init_s\<lparr>time := 42, TCNT1 := 1000, step := - 1, clock_ascending := False\<rparr>"
  let ?m = "main_init_ms\<lparr>time := 4242, TCNT0 := 100, clock_running := False\<rparr>"
  have hs: "reset_edge 123 ?s"
    by (simp add: reset_edge_def main_init_s_def)
  have hm: "reset_edge 123 ?m"
    by (simp add: reset_edge_def main_init_ms_def)
  from hs have "TCNT1 (PCINT1_vect_s 126 125 123 ?s) = 0 \<and> time (PCINT1_vect_s 126 125 123 ?s) = 0"
    using reset_zeroes by blast
  moreover from hm
  have "TCNT0 (PCINT1_vect_ms 126 125 123 ?m) = 0 \<and> time (PCINT1_vect_ms 126 125 123 ?m) = 0"
    using reset_zeroes by blast
  ultimately show ?thesis
    using hs hm by (simp only: simp_thms)
qed

section \<open>Claims about the swap-direction button\<close>

lemma swap_mode_s_edge:
  "\<not> swap_mode_button_was_pressed s \<Longrightarrow>
   swap_mode_s True s =
     s\<lparr>TCNT1 := TIMER_TOP_s - TCNT1 s, step := (if clock_ascending s then - 1 else 1),
       clock_ascending := \<not> clock_ascending s\<rparr>"
  by (simp add: swap_mode_s_def)

lemma swap_mode_ms_edge:
  "\<not> swap_mode_button_was_pressed s \<Longrightarrow>
   swap_mode_ms True s =
     s\<lparr>TCNT0 := TIMER_TOP_ms - TCNT0 s, step := (if clock_ascending s then - 1 else 1),
       clock_ascending := \<not> clock_ascending s\<rparr>"
  by (simp add: swap_mode_ms_def)

lemma swap_mode_s_twice:
  assumes "\<not> swap_mode_button_was_pressed s" and "direction_ok s"
  shows "swap_mode_s True (swap_mode_s True s) = s"
  using assms by (auto simp add: swap_mode_s_def direction_ok_def)

lemma swap_mode_ms_twice:
  assumes "\<not> swap_mode_button_was_pressed s" and "direction_ok s"
  shows "swap_mode_ms True (swap_mode_ms True s) = s"
  using assms by (auto simp add: swap_mode_ms_def direction_ok_def)

lemma TOP_s_sub:
  assumes "c \<le> TIMER_TOP_s"
  shows "unat (TIMER_TOP_s - c) = unat TIMER_TOP_s - unat c" and "TIMER_TOP_s - c \<le> TIMER_TOP_s"
  using assms by (simp_all add: unat_sub word_sub_le)

lemma TOP_ms_sub:
  assumes "c \<le> TIMER_TOP_ms"
  shows "unat (TIMER_TOP_ms - c) = unat TIMER_TOP_ms - unat c" and "TIMER_TOP_ms - c \<le> TIMER_TOP_ms"
  using assms by (simp_all add: unat_sub word_sub_le)

lemma PCINT1_s_swap:
  assumes "swap_mode_edge b s" and "c AND 4 \<noteq> 0"
  shows "TCNT1 (PCINT1_vect_s a b c s) = TIMER_TOP_s - TCNT1 s"
    and "step (PCINT1_vect_s a b c s) = (if clock_ascending s then - 1 else 1)"
    and "clock_ascending (PCINT1_vect_s a b c s) = (\<not> clock_ascending s)"
  using assms
  by (auto simp add: PCINT1_vect_s_def start_stop_s_def swap_mode_s_def reset_s_def
      swap_mode_edge_def Let_def)

lemma PCINT1_ms_swap:
  assumes "swap_mode_edge b s" and "c AND 4 \<noteq> 0"
  shows "TCNT0 (PCINT1_vect_ms a b c s) = TIMER_TOP_ms - TCNT0 s"
    and "step (PCINT1_vect_ms a b c s) = (if clock_ascending s then - 1 else 1)"
    and "clock_ascending (PCINT1_vect_ms a b c s) = (\<not> clock_ascending s)"
  using assms
  by (auto simp add: PCINT1_vect_ms_def start_stop_ms_def swap_mode_ms_def reset_ms_def
      swap_mode_edge_def Let_def)

lemma PCINT1_s_released:
  assumes "b AND 2 \<noteq> 0" and "c AND 4 \<noteq> 0"
  shows "TCNT1 (PCINT1_vect_s a b c s) = TCNT1 s"
    and "step (PCINT1_vect_s a b c s) = step s"
    and "clock_ascending (PCINT1_vect_s a b c s) = clock_ascending s"
  using assms
  by (auto simp add: PCINT1_vect_s_def start_stop_s_def swap_mode_s_def reset_s_def Let_def)

lemma PCINT1_ms_released:
  assumes "b AND 2 \<noteq> 0" and "c AND 4 \<noteq> 0"
  shows "TCNT0 (PCINT1_vect_ms a b c s) = TCNT0 s"
    and "step (PCINT1_vect_ms a b c s) = step s"
    and "clock_ascending (PCINT1_vect_ms a b c s) = clock_ascending s"
  using assms
  by (auto simp add: PCINT1_vect_ms_def start_stop_ms_def swap_mode_ms_def reset_ms_def Let_def)

lemma press_release_press_s:
  fixes a a' a'' :: u8
  assumes d: "direction_ok s" and e: "swap_mode_edge b s"
    and b': "b' AND 2 \<noteq> 0" and b'': "b'' AND 2 = 0"
    and c: "c AND 4 \<noteq> 0" "c' AND 4 \<noteq> 0" "c'' AND 4 \<noteq> 0"
  defines "t \<equiv> PCINT1_vect_s a'' b'' c'' (PCINT1_vect_s a' b' c' (PCINT1_vect_s a b c s))"
  shows "TCNT1 t = TCNT1 s \<and> step t = step s \<and> clock_ascending t = clock_ascending s"
proof -
  let ?s1 = "PCINT1_vect_s a b c s"
  let ?s2 = "PCINT1_vect_s a' b' c' ?s1"
  have "\<not> swap_mode_button_was_pressed ?s2"
    using b' by (simp add: PCINT1_vect_s_def Let_def)
  with b'' have e2: "swap_mode_edge b'' ?s2"
    by (simp add: swap_mode_edge_def)
  have "TCNT1 t = TIMER_TOP_s - (TIMER_TOP_s - TCNT1 s)"
    unfolding t_def
    by (simp only: PCINT1_s_swap(1) [OF e2 c(3)] PCINT1_s_released(1) [OF b' c(2)]
        PCINT1_s_swap(1) [OF e c(1)])
  moreover have "clock_ascending t = (\<not> \<not> clock_ascending s)"
    unfolding t_def
    by (simp only: PCINT1_s_swap(3) [OF e2 c(3)] PCINT1_s_released(3) [OF b' c(2)]
        PCINT1_s_swap(3) [OF e c(1)])
  moreover have "step t = (if \<not> clock_ascending s then - 1 else 1)"
    unfolding t_def
    by (simp only: PCINT1_s_swap(2) [OF e2 c(3)] PCINT1_s_released(3) [OF b' c(2)]
        PCINT1_s_swap(3) [OF e c(1)])
  ultimately show ?thesis
    using d by (auto simp add: direction_ok_def)
qed

lemma press_release_press_ms:
  fixes a a' a'' :: u8
  assumes d: "direction_ok s" and e: "swap_mode_edge b s"
    and b': "b' AND 2 \<noteq> 0" and b'': "b'' AND 2 = 0"
    and c: "c AND 4 \<noteq> 0" "c' AND 4 \<noteq> 0" "c'' AND 4 \<noteq> 0"
  defines "t \<equiv> PCINT1_vect_ms a'' b'' c'' (PCINT1_vect_ms a' b' c' (PCINT1_vect_ms a b c s))"
  shows "TCNT0 t = TCNT0 s \<and> step t = step s \<and> clock_ascending t = clock_ascending s"
proof -
  let ?s1 = "PCINT1_vect_ms a b c s"
  let ?s2 = "PCINT1_vect_ms a' b' c' ?s1"
  have "\<not> swap_mode_button_was_pressed ?s2"
    using b' by (simp add: PCINT1_vect_ms_def Let_def)
  with b'' have e2: "swap_mode_edge b'' ?s2"
    by (simp add: swap_mode_edge_def)
  have "TCNT0 t = TIMER_TOP_ms - (TIMER_TOP_ms - TCNT0 s)"
    unfolding t_def
    by (simp only: PCINT1_ms_swap(1) [OF e2 c(3)] PCINT1_ms_released(1) [OF b' c(2)]
        PCINT1_ms_swap(1) [OF e c(1)])
  moreover have "clock_ascending t = (\<not> \<not> clock_ascending s)"
    unfolding t_def
    by (simp only: PCINT1_ms_swap(3) [OF e2 c(3)] PCINT1_ms_released(3) [OF b' c(2)]
        PCINT1_ms_swap(3) [OF e c(1)])
  moreover have "step t = (if \<not> clock_ascending s then - 1 else 1)"
    unfolding t_def
    by (simp only: PCINT1_ms_swap(2) [OF e2 c(3)] PCINT1_ms_released(3) [OF b' c(2)]
        PCINT1_ms_swap(3) [OF e c(1)])
  ultimately show ?thesis
    using d by (auto simp add: direction_ok_def)
qed

text \<open>
  Claim C4. For every hardware counter value in \<open>[0, TOP]\<close> and every starting
  direction, two swap-direction actions in succession, with no timer tick in between,
  restore the hardware counter register, \<open>step\<close> and \<open>clock_ascending\<close>; each single
  swap remaps the counter as \<open>TOP - current\<close>, without wrap-around and staying in
  \<open>[0, TOP]\<close>. The round trip is stated for the swap block run twice (the whole state
  comes back) and for the handler called on a press, a release and a second press of
  the swap button while the reset button stays released.
\<close>

theorem swap_twice_restores:
  "(\<forall>s. \<not> swap_mode_button_was_pressed s \<and> TCNT1 s \<le> TIMER_TOP_s \<longrightarrow>
      TCNT1 (swap_mode_s True s) = TIMER_TOP_s - TCNT1 s \<and>
      unat (TCNT1 (swap_mode_s True s)) = unat TIMER_TOP_s - unat (TCNT1 s) \<and>
      TCNT1 (swap_mode_s True s) \<le> TIMER_TOP_s) \<and>
   (\<forall>s. \<not> swap_mode_button_was_pressed s \<and> TCNT1 s \<le> TIMER_TOP_s \<and> direction_ok s \<longrightarrow>
      swap_mode_s True (swap_mode_s True s) = s) \<and>
   (\<forall>s a b c a' b' c' a'' b'' c''.
      TCNT1 s \<le> TIMER_TOP_s \<and> direction_ok s \<and> swap_mode_edge b s \<and>
      b' AND 2 \<noteq> 0 \<and> b'' AND 2 = 0 \<and> c AND 4 \<noteq> 0 \<and> c' AND 4 \<noteq> 0 \<and> c'' AND 4 \<noteq> 0 \<longrightarrow>
      TCNT1 (PCINT1_vect_s a b c s) = TIMER_TOP_s - TCNT1 s \<and>
      TCNT1 (PCINT1_vect_s a'' b'' c'' (PCINT1_vect_s a' b' c' (PCINT1_vect_s a b c s))) = TCNT1 s \<and>
      step (PCINT1_vect_s a'' b'' c'' (PCINT1_vect_s a' b' c' (PCINT1_vect_s a b c s))) = step s \<and>
      clock_ascending (PCINT1_vect_s a'' b'' c'' (PCINT1_vect_s a' b' c' (PCINT1_vect_s a b c s)))
        = clock_ascending s) \<and>
   (\<forall>s. \<not> swap_mode_button_was_pressed s \<and> TCNT0 s \<le> TIMER_TOP_ms \<longrightarrow>
      TCNT0 (swap_mode_ms True s) = TIMER_TOP_ms - TCNT0 s \<and>
      unat (TCNT0 (swap_mode_ms True s)) = unat TIMER_TOP_ms - unat (TCNT0 s) \<and>
      TCNT0 (swap_mode_ms True s) \<le> TIMER_TOP_ms) \<and>
   (\<forall>s. \<not> swap_mode_button_was_pressed s \<and> TCNT0 s \<le> TIMER_TOP_ms \<and> direction_ok s \<longrightarrow>
      swap_mode_ms True (swap_mode_ms True s) = s) \<and>
   (\<forall>s a b c a' b' c' a'' b'' c''.
      TCNT0 s \<le> TIMER_TOP_ms \<and> direction_ok s \<and> swap_mode_edge b s \<and>
      b' AND 2 \<noteq> 0 \<and> b'' AND 2 = 0 \<and> c AND 4 \<noteq> 0 \<and> c' AND 4 \<noteq> 0 \<and> c'' AND 4 \<noteq> 0 \<longrightarrow>
      TCNT0 (PCINT1_vect_ms a b c s) = TIMER_TOP_ms - TCNT0 s \<and>
      TCNT0 (PCINT1_vect_ms a'' b'' c'' (PCINT1_vect_ms a' b' c' (PCINT1_vect_ms a b c s))) = TCNT0 s \<and>
      step (PCINT1_vect_ms a'' b'' c'' (PCINT1_vect_ms a' b' c' (PCINT1_vect_ms a b c s))) = step s \<and>
      clock_ascending (PCINT1_vect_ms a'' b'' c'' (PCINT1_vect_ms a' b' c' (PCINT1_vect_ms a b c s)))
        = clock_ascending s)"
proof (intro conjI allI impI)
  fix s :: seconds_clock
  assume h: "\<not> swap_mode_button_was_pressed s \<and> TCNT1 s \<le> TIMER_TOP_s"
  then have t: "TCNT1 (swap_mode_s True s) = TIMER_TOP_s - TCNT1 s"
    by (simp add: swap_mode_s_edge)
  show "TCNT1 (swap_mode_s True s) = TIMER_TOP_s - TCNT1 s"
    by (rule t)
  show "unat (TCNT1 (swap_mode_s True s)) = unat TIMER_TOP_s - unat (TCNT1 s)"
    using h by (simp only: t TOP_s_sub)
  show "TCNT1 (swap_mode_s True s) \<le> TIMER_TOP_s"
    using h by (simp only: t TOP_s_sub)
next
  fix s :: millis_clock
  assume h: "\<not> swap_mode_button_was_pressed s \<and> TCNT0 s \<le> TIMER_TOP_ms"
  then have t: "TCNT0 (swap_mode_ms True s) = TIMER_TOP_ms - TCNT0 s"
    by (simp add: swap_mode_ms_edge)
  show "TCNT0 (swap_mode_ms True s) = TIMER_TOP_ms - TCNT0 s"
    by (rule t)
  show "unat (TCNT0 (swap_mode_ms True s)) = unat TIMER_TOP_ms - unat (TCNT0 s)"
    using h by (simp only: t TOP_ms_sub)
  show "TCNT0 (swap_mode_ms True s) \<le> TIMER_TOP_ms"
    using h by (simp only: t TOP_ms_sub)
next
  fix s :: seconds_clock
  assume "\<not> swap_mode_button_was_pressed s \<and> TCNT1 s \<le> TIMER_TOP_s \<and> direction_ok s"
  then show "swap_mode_s True (swap_mode_s True s) = s"
    by (simp add: swap_mode_s_twice)
next
  fix s :: millis_clock
  assume "\<not> swap_mode_button_was_pressed s \<and> TCNT0 s \<le> TIMER_TOP_ms \<and> direction_ok s"
  then show "swap_mode_ms True (swap_mode_ms True s) = s"
    by (simp add: swap_mode_ms_twice)
next
  fix s :: seconds_clock and a b c a' b' c' a'' b'' c'' :: u8
  assume h: "TCNT1 s \<le> TIMER_TOP_s \<and> direction_ok s \<and> swap_mode_edge b s \<and>
      b' AND 2 \<noteq> 0 \<and> b'' AND 2 = 0 \<and> c AND 4 \<noteq> 0 \<and> c' AND 4 \<noteq> 0 \<and> c'' AND 4 \<noteq> 0"
  then show "TCNT1 (PCINT1_vect_s a b c s) = TIMER_TOP_s - TCNT1 s"
    by (simp add: PCINT1_s_swap)
  from h have "direction_ok s" "swap_mode_edge b s" "b' AND 2 \<noteq> 0" "b'' AND 2 = 0"
    "c AND 4 \<noteq> 0" "c' AND 4 \<noteq> 0" "c'' AND 4 \<noteq> 0"
    by simp_all
  from press_release_press_s [OF this, of a'' a' a]
  show "TCNT1 (PCINT1_vect_s a'' b'' c'' (PCINT1_vect_s a' b' c' (PCINT1_vect_s a b c s))) = TCNT1 s"
    and "step (PCINT1_vect_s a'' b'' c'' (PCINT1_vect_s a' b' c' (PCINT1_vect_s a b c s))) = step s"
    and "clock_ascending (PCINT1_vect_s a'' b'' c'' (PCINT1_vect_s a' b' c' (PCINT1_vect_s a b c s)))
        = clock_ascending s"
    by simp_all
next
  fix s :: millis_clock and a b c a' b' c' a'' b'' c'' :: u8
  assume h: "TCNT0 s \<le> TIMER_TOP_ms \<and> direction_ok s \<and> swap_mode_edge b s \<and>
      b' AND 2 \<noteq> 0 \<and> b'' AND 2 = 0 \<and> c AND 4 \<noteq> 0 \<and> c' AND 4 \<noteq> 0 \<and> c'' AND 4 \<noteq> 0"
  then show "TCNT0 (PCINT1_vect_ms a b c s) = TIMER_TOP_ms - TCNT0 s"
    by (simp add: PCINT1_ms_swap)
  from h have "direction_ok s" "swap_mode_edge b s" "b' AND 2 \<noteq> 0" "b'' AND 2 = 0"
    "c AND 4 \<noteq> 0" "c' AND 4 \<noteq> 0" "c'' AND 4 \<noteq> 0"
    by simp_all
  from press_release_press_ms [OF this, of a'' a' a]
  show "TCNT0 (PCINT1_vect_ms a'' b'' c'' (PCINT1_vect_ms a' b' c' (PCINT1_vect_ms a b c s))) = TCNT0 s"
    and "step (PCINT1_vect_ms a'' b'' c'' (PCINT1_vect_ms a' b' c' (PCINT1_vect_ms a b c s))) = step s"
    and "clock_ascending (PCINT1_vect_ms a'' b'' c'' (PCINT1_vect_ms a' b' c' (PCINT1_vect_ms a b c s)))
        = clock_ascending s"
    by simp_all
qed

theorem swap_twice_restores_witness:
  "\<not> swap_mode_button_was_pressed (main_init_s\<lparr>TCNT1 := 15621\<rparr>) \<and> TCNT1 (main_init_s\<lparr>TCNT1 := 15621\<rparr>) \<le> TIMER_TOP_s \<and> direction_ok (main_init_s\<lparr>TCNT1 := 15621\<rparr>) \<and>
   swap_mode_edge 125 (main_init_s\<lparr>TCNT1 := 15621\<rparr>) \<and> (127 :: u8) AND 2 \<noteq> 0 \<and> (125 :: u8) AND 2 = 0 \<and> (127 :: u8) AND 4 \<noteq> 0 \<and>
   unat (TCNT1 (swap_mode_s True (main_init_s\<lparr>TCNT1 := 15621\<rparr>))) = 3 \<and>
   swap_mode_s True (swap_mode_s True (main_init_s\<lparr>TCNT1 := 15621\<rparr>)) = (main_init_s\<lparr>TCNT1 := 15621\<rparr>) \<and>
   TCNT1 (PCINT1_vect_s 127 125 127 (main_init_s\<lparr>TCNT1 := 15621\<rparr>)) = 3 \<and>
   TCNT1 (PCINT1_vect_s 127 125 127 (PCINT1_vect_s 127 127 127 (PCINT1_vect_s 127 125 127 (main_init_s\<lparr>TCNT1 := 15621\<rparr>)))) = 15621 \<and> step (PCINT1_vect_s 127 125 127 (PCINT1_vect_s 127 127 127 (PCINT1_vect_s 127 125 127 (main_init_s\<lparr>TCNT1 := 15621\<rparr>)))) = 1 \<and> clock_ascending (PCINT1_vect_s 127 125 127 (PCINT1_vect_s 127 127 127 (PCINT1_vect_s 127 125 127 (main_init_s\<lparr>TCNT1 := 15621\<rparr>)))) \<and>
   \<not> swap_mode_button_was_pressed (main_init_ms\<lparr>TCNT0 := 121, step := - 1, clock_ascending := False\<rparr>) \<and> TCNT0 (main_init_ms\<lparr>TCNT0 := 121, step := - 1, clock_ascending := False\<rparr>) \<le> TIMER_TOP_ms \<and> direction_ok (main_init_ms\<lparr>TCNT0 := 121, step := - 1, clock_ascending := False\<rparr>) \<and>
   swap_mode_edge 125 (main_init_ms\<lparr>TCNT0 := 121, step := - 1, clock_ascending := False\<rparr>) \<and>
   unat (TCNT0 (swap_mode_ms True (main_init_ms\<lparr>TCNT0 := 121, step := - 1, clock_ascending := False\<rparr>))) = 3 \<and>
   swap_mode_ms True (swap_mode_ms True (main_init_ms\<lparr>TCNT0 := 121, step := - 1, clock_ascending := False\<rparr>)) = (main_init_ms\<lparr>TCNT0 := 121, step := - 1, clock_ascending := False\<rparr>) \<and>
   TCNT0 (PCINT1_vect_ms 127 125 127 (main_init_ms\<lparr>TCNT0 := 121, step := - 1, clock_ascending := False\<rparr>)) = 3 \<and>
   TCNT0 (PCINT1_vect_ms 127 125 127 (PCINT1_vect_ms 127 127 127 (PCINT1_vect_ms 127 125 127 (main_init_ms\<lparr>TCNT0 := 121, step := - 1, clock_ascending := False\<rparr>)))) = 121 \<and> step (PCINT1_vect_ms 127 125 127 (PCINT1_vect_ms 127 127 127 (PCINT1_vect_ms 127 125 127 (main_init_ms\<lparr>TCNT0 := 121, step := - 1, clock_ascending := False\<rparr>)))) = - 1 \<and> \<not> clock_ascending (PCINT1_vect_ms 127 125 127 (PCINT1_vect_ms 127 127 127 (PCINT1_vect_ms 127 125 127 (main_init_ms\<lparr>TCNT0 := 121, step := - 1, clock_ascending := False\<rparr>))))"
proof -
  note T = swap_twice_restores
  have p: "(127 :: u8) AND 2 \<noteq> 0" "(125 :: u8) AND 2 = 0" "(127 :: u8) AND 4 \<noteq> 0"
    by simp_all
  have hs: "\<not> swap_mode_button_was_pressed (main_init_s\<lparr>TCNT1 := 15621\<rparr>)" "TCNT1 (main_init_s\<lparr>TCNT1 := 15621\<rparr>) \<le> TIMER_TOP_s" "direction_ok (main_init_s\<lparr>TCNT1 := 15621\<rparr>)"
    "swap_mode_edge 125 (main_init_s\<lparr>TCNT1 := 15621\<rparr>)"
    by (simp_all add: main_init_s_def TIMER_TOP_s_def direction_ok_def swap_mode_edge_def)
  have hm: "\<not> swap_mode_button_was_pressed (main_init_ms\<lparr>TCNT0 := 121, step := - 1, clock_ascending := False\<rparr>)" "TCNT0 (main_init_ms\<lparr>TCNT0 := 121, step := - 1, clock_ascending := False\<rparr>) \<le> TIMER_TOP_ms" "direction_ok (main_init_ms\<lparr>TCNT0 := 121, step := - 1, clock_ascending := False\<rparr>)"
    "swap_mode_edge 125 (main_init_ms\<lparr>TCNT0 := 121, step := - 1, clock_ascending := False\<rparr>)"
    by (simp_all add: main_init_ms_def TIMER_TOP_ms_def direction_ok_def swap_mode_edge_def)
  have vs: "TCNT1 (main_init_s\<lparr>TCNT1 := 15621\<rparr>) = 15621" "step (main_init_s\<lparr>TCNT1 := 15621\<rparr>) = 1" "clock_ascending (main_init_s\<lparr>TCNT1 := 15621\<rparr>)"
    "unat TIMER_TOP_s - unat (TCNT1 (main_init_s\<lparr>TCNT1 := 15621\<rparr>)) = 3" "TIMER_TOP_s - TCNT1 (main_init_s\<lparr>TCNT1 := 15621\<rparr>) = 3"
    by (simp_all add: main_init_s_def TIMER_TOP_s_def)
  have vm: "TCNT0 (main_init_ms\<lparr>TCNT0 := 121, step := - 1, clock_ascending := False\<rparr>) = 121" "step (main_init_ms\<lparr>TCNT0 := 121, step := - 1, clock_ascending := False\<rparr>) = - 1" "\<not> clock_ascending (main_init_ms\<lparr>TCNT0 := 121, step := - 1, clock_ascending := False\<rparr>)"
    "unat TIMER_TOP_ms - unat (TCNT0 (main_init_ms\<lparr>TCNT0 := 121, step := - 1, clock_ascending := False\<rparr>)) = 3" "TIMER_TOP_ms - TCNT0 (main_init_ms\<lparr>TCNT0 := 121, step := - 1, clock_ascending := False\<rparr>) = 3"
    by (simp_all add: main_init_ms_def TIMER_TOP_ms_def)
  have cs1: "\<not> swap_mode_button_was_pressed (main_init_s\<lparr>TCNT1 := 15621\<rparr>) \<and> TCNT1 (main_init_s\<lparr>TCNT1 := 15621\<rparr>) \<le> TIMER_TOP_s"
    by (intro conjI) (rule hs)+
  have cs2: "\<not> swap_mode_button_was_pressed (main_init_s\<lparr>TCNT1 := 15621\<rparr>) \<and> TCNT1 (main_init_s\<lparr>TCNT1 := 15621\<rparr>) \<le> TIMER_TOP_s \<and> direction_ok (main_init_s\<lparr>TCNT1 := 15621\<rparr>)"
    by (intro conjI) (rule hs)+
  have cs3: "TCNT1 (main_init_s\<lparr>TCNT1 := 15621\<rparr>) \<le> TIMER_TOP_s \<and> direction_ok (main_init_s\<lparr>TCNT1 := 15621\<rparr>) \<and> swap_mode_edge 125 (main_init_s\<lparr>TCNT1 := 15621\<rparr>) \<and>
      (127 :: u8) AND 2 \<noteq> 0 \<and> (125 :: u8) AND 2 = 0 \<and> (127 :: u8) AND 4 \<noteq> 0 \<and>
      (127 :: u8) AND 4 \<noteq> 0 \<and> (127 :: u8) AND 4 \<noteq> 0"
    by (intro conjI) (rule hs p)+
  have cm1: "\<not> swap_mode_button_was_pressed (main_init_ms\<lparr>TCNT0 := 121, step := - 1, clock_ascending := False\<rparr>) \<and> TCNT0 (main_init_ms\<lparr>TCNT0 := 121, step := - 1, clock_ascending := False\<rparr>) \<le> TIMER_TOP_ms"
    by (intro conjI) (rule hm)+
  have cm2: "\<not> swap_mode_button_was_pressed (main_init_ms\<lparr>TCNT0 := 121, step := - 1, clock_ascending := False\<rparr>) \<and> TCNT0 (main_init_ms\<lparr>TCNT0 := 121, step := - 1, clock_ascending := False\<rparr>) \<le> TIMER_TOP_ms \<and> direction_ok (main_init_ms\<lparr>TCNT0 := 121, step := - 1, clock_ascending := False\<rparr>)"
    by (intro conjI) (rule hm)+
  have cm3: "TCNT0 (main_init_ms\<lparr>TCNT0 := 121, step := - 1, clock_ascending := False\<rparr>) \<le> TIMER_TOP_ms \<and> direction_ok (main_init_ms\<lparr>TCNT0 := 121, step := - 1, clock_ascending := False\<rparr>) \<and> swap_mode_edge 125 (main_init_ms\<lparr>TCNT0 := 121, step := - 1, clock_ascending := False\<rparr>) \<and>
      (127 :: u8) AND 2 \<noteq> 0 \<and> (125 :: u8) AND 2 = 0 \<and> (127 :: u8) AND 4 \<noteq> 0 \<and>
      (127 :: u8) AND 4 \<noteq> 0 \<and> (127 :: u8) AND 4 \<noteq> 0"
    by (intro conjI) (rule hm p)+
  note s1 = T [THEN conjunct1, rule_format, OF cs1]
  note s2 = T [THEN conjunct2, THEN conjunct1, rule_format, OF cs2]
  note s3 = T [THEN conjunct2, THEN conjunct2, THEN conjunct1, rule_format,
      OF cs3, of 127 127 127]
  note m1 = T [THEN conjunct2, THEN conjunct2, THEN conjunct2, THEN conjunct1, rule_format, OF cm1]
  note m2 = T [THEN conjunct2, THEN conjunct2, THEN conjunct2, THEN conjunct2, THEN conjunct1,
      rule_format, OF cm2]
  note m3 = T [THEN conjunct2, THEN conjunct2, THEN conjunct2, THEN conjunct2, THEN conjunct2,
      rule_format, OF cm3, of 127 127 127]
  from s1 s2 s3 m1 m2 m3 hs hm p show ?thesis
    by (simp add: vs vm TIMER_TOP_s_def TIMER_TOP_ms_def)
qed

lemma PCINT1_s_only_swap:
  assumes "swap_mode_edge b s" and "\<not> start_stop_edge a s" and "\<not> reset_edge c s"
  shows "PCINT1_vect_s a b c s =
    s\<lparr>TCNT1 := TIMER_TOP_s - TCNT1 s, step := (if clock_ascending s then - 1 else 1),
      clock_ascending := \<not> clock_ascending s,
      start_stop_button_was_pressed := (a AND 1 = 0), swap_mode_button_was_pressed := True,
      reset_button_was_pressed := (c AND 4 = 0)\<rparr>"
  using assms
  by (auto simp add: PCINT1_vect_s_def start_stop_s_def swap_mode_s_def reset_s_def
      swap_mode_edge_def start_stop_edge_def reset_edge_def Let_def)

lemma PCINT1_ms_only_swap:
  assumes "swap_mode_edge b s" and "\<not> start_stop_edge a s" and "\<not> reset_edge c s"
  shows "PCINT1_vect_ms a b c s =
    s\<lparr>TCNT0 := TIMER_TOP_ms - TCNT0 s, step := (if clock_ascending s then - 1 else 1),
      clock_ascending := \<not> clock_ascending s,
      start_stop_button_was_pressed := (a AND 1 = 0), swap_mode_button_was_pressed := True,
      reset_button_was_pressed := (c AND 4 = 0)\<rparr>"
  using assms
  by (auto simp add: PCINT1_vect_ms_def start_stop_ms_def swap_mode_ms_def reset_ms_def
      swap_mode_edge_def start_stop_edge_def reset_edge_def Let_def)

text \<open>
  Claim C10. The swap-direction action leaves \<open>time\<close> unchanged. The swap block never
  writes \<open>time\<close>, whatever state and level it is given; on a press edge it changes the
  hardware counter register, \<open>step\<close> and \<open>clock_ascending\<close> and nothing else. A call of
  the handler with a swap press edge leaves \<open>time\<close> unchanged unless the reset button
  has a press edge in the same call, and when the swap edge is the only edge the call
  changes only those three and the snapshots.
\<close>

theorem swap_keeps_time:
  "(\<forall>p s. time (swap_mode_s p s) = time s) \<and>
   (\<forall>s. \<not> swap_mode_button_was_pressed s \<longrightarrow>
      swap_mode_s True s =
        s\<lparr>TCNT1 := TIMER_TOP_s - TCNT1 s, step := (if clock_ascending s then - 1 else 1),
          clock_ascending := \<not> clock_ascending s\<rparr>) \<and>
   (\<forall>s a b c. swap_mode_edge b s \<and> \<not> reset_edge c s \<longrightarrow>
      time (PCINT1_vect_s a b c s) = time s) \<and>
   (\<forall>s a b c. swap_mode_edge b s \<and> \<not> start_stop_edge a s \<and> \<not> reset_edge c s \<longrightarrow>
      PCINT1_vect_s a b c s =
        s\<lparr>TCNT1 := TIMER_TOP_s - TCNT1 s, step := (if clock_ascending s then - 1 else 1),
          clock_ascending := \<not> clock_ascending s,
          start_stop_button_was_pressed := (a AND 1 = 0), swap_mode_button_was_pressed := True,
          reset_button_was_pressed := (c AND 4 = 0)\<rparr>) \<and>
   (\<forall>p s. time (swap_mode_ms p s) = time s) \<and>
   (\<forall>s. \<not> swap_mode_button_was_pressed s \<longrightarrow>
      swap_mode_ms True s =
        s\<lparr>TCNT0 := TIMER_TOP_ms - TCNT0 s, step := (if clock_ascending s then - 1 else 1),
          clock_ascending := \<not> clock_ascending s\<rparr>) \<and>
   (\<forall>s a b c. swap_mode_edge b s \<and> \<not> reset_edge c s \<longrightarrow>
      time (PCINT1_vect_ms a b c s) = time s) \<and>
   (\<forall>s a b c. swap_mode_edge b s \<and> \<not> start_stop_edge a s \<and> \<not> reset_edge c s \<longrightarrow>
      PCINT1_vect_ms a b c s =
        s\<lparr>TCNT0 := TIMER_TOP_ms - TCNT0 s, step := (if clock_ascending s then - 1 else 1),
          clock_ascending := \<not> clock_ascending s,
          start_stop_button_was_pressed := (a AND 1 = 0), swap_mode_button_was_pressed := True,
          reset_button_was_pressed := (c AND 4 = 0)\<rparr>)"
proof (intro conjI allI impI)
  fix p and s :: seconds_clock
  show "time (swap_mode_s p s) = time s"
    by (simp add: swap_mode_s_def)
next
  fix p and s :: millis_clock
  show "time (swap_mode_ms p s) = time s"
    by (simp add: swap_mode_ms_def)
next
  fix s :: seconds_clock
  assume "\<not> swap_mode_button_was_pressed s"
  then show "swap_mode_s True s =
        s\<lparr>TCNT1 := TIMER_TOP_s - TCNT1 s, step := (if clock_ascending s then - 1 else 1),
          clock_ascending := \<not> clock_ascending s\<rparr>"
    by (rule swap_mode_s_edge)
next
  fix s :: millis_clock
  assume "\<not> swap_mode_button_was_pressed s"
  then show "swap_mode_ms True s =
        s\<lparr>TCNT0 := TIMER_TOP_ms - TCNT0 s, step := (if clock_ascending s then - 1 else 1),
          clock_ascending := \<not> clock_ascending s\<rparr>"
    by (rule swap_mode_ms_edge)
next
  fix s :: seconds_clock and a b c :: u8
  assume "swap_mode_edge b s \<and> \<not> reset_edge c s"
  then show "time (PCINT1_vect_s a b c s) = time s"
    by (simp add: PCINT1_s_time)
next
  fix s :: millis_clock and a b c :: u8
  assume "swap_mode_edge b s \<and> \<not> reset_edge c s"
  then show "time (PCINT1_vect_ms a b c s) = time s"
    by (simp add: PCINT1_ms_time)
next
  fix s :: seconds_clock and a b c :: u8
  assume h: "swap_mode_edge b s \<and> \<not> start_stop_edge a s \<and> \<not> reset_edge c s"
  show "PCINT1_vect_s a b c s =
        s\<lparr>TCNT1 := TIMER_TOP_s - TCNT1 s, step := (if clock_ascending s then - 1 else 1),
          clock_ascending := \<not> clock_ascending s,
          start_stop_button_was_pressed := (a AND 1 = 0), swap_mode_button_was_pressed := True,
          reset_button_was_pressed := (c AND 4 = 0)\<rparr>"
    by (rule PCINT1_s_only_swap) (simp_all add: h)
next
  fix s :: millis_clock and a b c :: u8
  assume h: "swap_mode_edge b s \<and> \<not> start_stop_edge a s \<and> \<not> reset_edge c s"
  show "PCINT1_vect_ms a b c s =
        s\<lparr>TCNT0 := TIMER_TOP_ms - TCNT0 s, step := (if clock_ascending s then - 1 else 1),
          clock_ascending := \<not> clock_ascending s,
          start_stop_button_was_pressed := (a AND 1 = 0), swap_mode_button_was_pressed := True,
          reset_button_was_pressed := (c AND 4 = 0)\<rparr>"
    by (rule PCINT1_ms_only_swap) (simp_all add: h)
qed

theorem swap_keeps_time_witness:
  "swap_mode_edge 125 (main_init_s\<lparr>time := 42\<rparr>) \<and>
   \<not> reset_edge 127 (main_init_s\<lparr>time := 42\<rparr>) \<and>
   time (PCINT1_vect_s 127 125 127 (main_init_s\<lparr>time := 42\<rparr>)) = 42 \<and>
   time (swap_mode_s True (main_init_s\<lparr>time := 42\<rparr>)) = 42 \<and>
   swap_mode_edge 125 (main_init_ms\<lparr>time := 42042\<rparr>) \<and>
   \<not> reset_edge 127 (main_init_ms\<lparr>time := 42042\<rparr>) \<and>
   time (PCINT1_vect_ms 127 125 127 (main_init_ms\<lparr>time := 42042\<rparr>)) = 42042 \<and>
   time (swap_mode_ms True (main_init_ms\<lparr>time := 42042\<rparr>)) = 42042"
proof -
  note T = swap_keeps_time
  have hs: "swap_mode_edge 125 (main_init_s\<lparr>time := 42\<rparr>) \<and>
      \<not> reset_edge 127 (main_init_s\<lparr>time := 42\<rparr>)"
    by (simp add: swap_mode_edge_def reset_edge_def main_init_s_def)
  have hm: "swap_mode_edge 125 (main_init_ms\<lparr>time := 42042\<rparr>) \<and>
      \<not> reset_edge 127 (main_init_ms\<lparr>time := 42042\<rparr>)"
    by (simp add: swap_mode_edge_def reset_edge_def main_init_ms_def)
  have vs: "time (main_init_s\<lparr>time := 42\<rparr>) = 42"
    by simp
  have vm: "time (main_init_ms\<lparr>time := 42042\<rparr>) = 42042"
    by simp
  note s1 = T [THEN conjunct1, rule_format, of True "main_init_s\<lparr>time := 42\<rparr>"]
  note s2 = T [THEN conjunct2, THEN conjunct2, THEN conjunct1, rule_format, OF hs, of 127]
  note m1 = T [THEN conjunct2, THEN conjunct2, THEN conjunct2, THEN conjunct2, THEN conjunct1,
      rule_format, of True "main_init_ms\<lparr>time := 42042\<rparr>"]
  note m2 = T [THEN conjunct2, THEN conjunct2, THEN conjunct2, THEN conjunct2, THEN conjunct2,
      THEN conjunct2, THEN conjunct1, rule_format, OF hm, of 127]
  from s1 s2 m1 m2 hs hm show ?thesis
    by (simp add: vs vm)
qed

section \<open>Claims about the display loop\<close>

lemma digits_hex: "digits = [0x3F, 0x06, 0x5B, 0x4F, 0x66, 0x6D, 0x7D, 0x07, 0x7F, 0x67]"
  by (simp add: digits_def binary_literal_def)

lemma length_digits: "length digits = 10"
  by (simp add: digits_def)

lemma digits_at_Some: "unat i < 10 \<Longrightarrow> digits_at i = Some (digits ! unat i)"
  by (simp add: digits_at_def length_digits)

lemma digits_at_None: "10 \<le> unat i \<Longrightarrow> digits_at i = None"
  by (simp add: digits_at_def length_digits)

lemma main_loop_s_Some:
  assumes "unat (time s) < 100"
  shows "main_loop_s s =
    Some (s\<lparr>PORTB := digits ! (unat (time s) mod 10), PORTD := digits ! (unat (time s) div 10)\<rparr>)"
proof -
  have m: "unat (time s mod 10) = unat (time s) mod 10"
    by (simp add: unat_mod)
  have d: "unat (time s div 10) = unat (time s) div 10"
    by (simp add: unat_div)
  have "unat (time s mod 10) < 10"
    by (simp add: m)
  moreover from assms have "unat (time s div 10) < 10"
    by (simp add: d)
  ultimately show ?thesis
    by (simp add: main_loop_s_def Let_def digits_at_Some m d)
qed

lemma main_loop_s_None:
  assumes "100 \<le> unat (time s)"
  shows "main_loop_s s = None"
proof -
  have m: "unat (time s mod 10) = unat (time s) mod 10"
    by (simp add: unat_mod)
  have d: "unat (time s div 10) = unat (time s) div 10"
    by (simp add: unat_div)
  have "unat (time s mod 10) < 10"
    by (simp add: m)
  moreover from assms have "10 \<le> unat (time s div 10)"
    by (simp add: d)
  ultimately show ?thesis
    by (simp add: main_loop_s_def Let_def digits_at_Some digits_at_None)
qed

text \<open>
  Claim C9. In the seconds clock, for every displayed value of \<open>time\<close> one iteration of
  the display loop writes the table entry for \<open>time mod 10\<close> to the ones-digit port
  \<open>PORTB\<close> and the entry for \<open>time div 10\<close> to the tens-digit port \<open>PORTD\<close>, and changes
  nothing else. This holds for every \<open>time\<close> below 100, where both indices are inside the
  table, so for every \<open>time\<close> in \<open>[0, 60)\<close> and after every run of events. The table
  maps the digits 0 to 9 to 0x3F, 0x06, 0x5B, 0x4F, 0x66, 0x6D, 0x7D, 0x07, 0x7F, 0x67;
  displaying \<open>time = 7\<close> gives 0x07 on the ones digit and 0x3F on the tens digit.
\<close>

theorem display_digits:
  "(\<forall>s. unat (time s) < 100 \<longrightarrow>
      main_loop_s s =
        Some (s\<lparr>PORTB := digits ! (unat (time s) mod 10),
               PORTD := digits ! (unat (time s) div 10)\<rparr>)) \<and>
   (\<forall>s. time_in_range_s s \<longrightarrow> unat (time s) < 100) \<and>
   (\<forall>es. main_loop_s (run_s es main_init_s) =
      Some ((run_s es main_init_s)
        \<lparr>PORTB := digits ! (unat (time (run_s es main_init_s)) mod 10),
         PORTD := digits ! (unat (time (run_s es main_init_s)) div 10)\<rparr>)) \<and>
   digits = [0x3F, 0x06, 0x5B, 0x4F, 0x66, 0x6D, 0x7D, 0x07, 0x7F, 0x67] \<and>
   (\<forall>s. time s = 7 \<longrightarrow> main_loop_s s = Some (s\<lparr>PORTB := 0x07, PORTD := 0x3F\<rparr>))"
proof (intro conjI allI impI)
  fix s :: seconds_clock
  assume "unat (time s) < 100"
  then show "main_loop_s s =
        Some (s\<lparr>PORTB := digits ! (unat (time s) mod 10),
               PORTD := digits ! (unat (time s) div 10)\<rparr>)"
    by (rule main_loop_s_Some)
next
  fix s :: seconds_clock
  assume "time_in_range_s s"
  then show "unat (time s) < 100"
    by (simp add: time_in_range_s_def)
next
  fix es
  have "time_in_range_s (run_s es main_init_s)"
    by (simp add: reachable_s_inv)
  then have "unat (time (run_s es main_init_s)) < 100"
    by (simp add: time_in_range_s_def)
  then show "main_loop_s (run_s es main_init_s) =
      Some ((run_s es main_init_s)
        \<lparr>PORTB := digits ! (unat (time (run_s es main_init_s)) mod 10),
         PORTD := digits ! (unat (time (run_s es main_init_s)) div 10)\<rparr>)"
    by (rule main_loop_s_Some)
next
  show "digits = [0x3F, 0x06, 0x5B, 0x4F, 0x66, 0x6D, 0x7D, 0x07, 0x7F, 0x67]"
    by (rule digits_hex)
next
  fix s :: seconds_clock
  assume t: "time s = 7"
  then have "unat (time s) < 100"
    by simp
  then have "main_loop_s s =
        Some (s\<lparr>PORTB := digits ! (unat (time s) mod 10),
               PORTD := digits ! (unat (time s) div 10)\<rparr>)"
    by (rule main_loop_s_Some)
  then show "main_loop_s s = Some (s\<lparr>PORTB := 0x07, PORTD := 0x3F\<rparr>)"
    by (simp add: t digits_hex)
qed

theorem display_digits_witness:
  "unat (time (main_init_s\<lparr>time := 7\<rparr>)) < 100 \<and>
   main_loop_s (main_init_s\<lparr>time := 7\<rparr>) =
     Some (main_init_s\<lparr>time := 7, PORTB := 0x07, PORTD := 0x3F\<rparr>) \<and>
   time_in_range_s (main_init_s\<lparr>time := 59\<rparr>) \<and>
   main_loop_s (main_init_s\<lparr>time := 59\<rparr>) =
     Some (main_init_s\<lparr>time := 59, PORTB := 0x67, PORTD := 0x6D\<rparr>)"
proof -
  note T = display_digits
  have h7: "unat (time (main_init_s\<lparr>time := 7\<rparr>)) < 100"
    by simp
  have h59: "time_in_range_s (main_init_s\<lparr>time := 59\<rparr>)"
    by (simp add: time_in_range_s_def)
  note r59 = T [THEN conjunct2, THEN conjunct1, rule_format, OF h59]
  note tab = T [THEN conjunct2, THEN conjunct2, THEN conjunct2, THEN conjunct1]
  have dg: "digits ! 9 = 0x67" "digits ! 5 = 0x6D"
    by (simp_all add: tab)
  have t7: "time (main_init_s\<lparr>time := 7\<rparr>) = 7"
    by simp
  have "main_loop_s (main_init_s\<lparr>time := 7\<rparr>) =
     Some (main_init_s\<lparr>time := 7, PORTB := 0x07, PORTD := 0x3F\<rparr>)"
    by (rule T [THEN conjunct2, THEN conjunct2, THEN conjunct2, THEN conjunct2, rule_format, OF t7])
  moreover have "main_loop_s (main_init_s\<lparr>time := 59\<rparr>) =
     Some (main_init_s\<lparr>time := 59, PORTB := 0x67, PORTD := 0x6D\<rparr>)"
    using T [THEN conjunct1, rule_format, OF r59]
    by (simp add: dg)
  ultimately show ?thesis
    using h7 h59 by (simp only: simp_thms)
qed

section \<open>Claims about the start/stop button\<close>

lemma start_stop_s_time: "time (start_stop_s p s) = time s"
  by (simp add: start_stop_s_def)

lemma start_stop_ms_time: "time (start_stop_ms p s) = time s"
  by (simp add: start_stop_ms_def)

lemma PCINT1_s_start_stop:
  assumes "start_stop_edge a s"
  shows "clock_running (PCINT1_vect_s a b c s) = (\<not> clock_running s)"
    and "TCCR1B (PCINT1_vect_s a b c s) =
      (if clock_running s then TCCR1B s AND NOT 3 else TCCR1B s OR 3)"
  using assms
  by (auto simp add: PCINT1_vect_s_def start_stop_s_def swap_mode_s_def reset_s_def
      start_stop_edge_def Let_def)

lemma PCINT1_ms_start_stop:
  assumes "start_stop_edge a s"
  shows "clock_running (PCINT1_vect_ms a b c s) = (\<not> clock_running s)"
    and "TCCR0B (PCINT1_vect_ms a b c s) =
      (if clock_running s then TCCR0B s AND NOT 2 else TCCR0B s OR 2)"
  using assms
  by (auto simp add: PCINT1_vect_ms_def start_stop_ms_def swap_mode_ms_def reset_ms_def
      start_stop_edge_def Let_def)

lemma PCINT1_s_cfg: "timer_cfg_s s \<Longrightarrow> timer_cfg_s (PCINT1_vect_s a b c s)"
  by (auto simp add: timer_cfg_s_def PCINT1_vect_s_def start_stop_s_def swap_mode_s_def
      reset_s_def Let_def)

lemma PCINT1_ms_cfg: "timer_cfg_ms s \<Longrightarrow> timer_cfg_ms (PCINT1_vect_ms a b c s)"
  by (auto simp add: timer_cfg_ms_def PCINT1_vect_ms_def start_stop_ms_def swap_mode_ms_def
      reset_ms_def Let_def)

lemma TIMER1_cfg: "timer_cfg_s s \<Longrightarrow> timer_cfg_s (TIMER1_COMPA_vect s)"
  by (simp add: timer_cfg_s_def TIMER1_frame)

lemma TIMER0_cfg: "timer_cfg_ms s \<Longrightarrow> timer_cfg_ms (TIMER0_COMPA_vect s)"
  by (simp add: timer_cfg_ms_def TIMER0_frame)

lemma fire_s_cfg: "timer_cfg_s s \<Longrightarrow> timer_cfg_s (fire_s e s)"
  by (cases e) (simp_all add: TIMER1_cfg PCINT1_s_cfg, simp add: timer_cfg_s_def)

lemma fire_ms_cfg: "timer_cfg_ms s \<Longrightarrow> timer_cfg_ms (fire_ms e s)"
  by (cases e) (simp_all add: TIMER0_cfg PCINT1_ms_cfg, simp add: timer_cfg_ms_def)

lemma run_s_cfg: "timer_cfg_s s \<Longrightarrow> timer_cfg_s (run_s es s)"
  by (induction es arbitrary: s) (simp_all add: fire_s_cfg)

lemma run_ms_cfg: "timer_cfg_ms s \<Longrightarrow> timer_cfg_ms (run_ms es s)"
  by (induction es arbitrary: s) (simp_all add: fire_ms_cfg)

lemma main_init_s_cfg: "timer_cfg_s main_init_s"
  by (simp add: timer_cfg_s_def main_init_s_def)

lemma main_init_ms_cfg: "timer_cfg_ms main_init_ms"
  by (simp add: timer_cfg_ms_def main_init_ms_def)

lemma stop_s_bits:
  assumes "clock_running s" and "start_stop_edge a s" and "timer_cfg_s s"
  shows "TCCR1B (PCINT1_vect_s a b c s) AND 7 = 0"
  using assms by (simp add: PCINT1_s_start_stop timer_cfg_s_def)

lemma stop_ms_bits:
  assumes "clock_running s" and "start_stop_edge a s" and "timer_cfg_ms s"
  shows "TCCR0B (PCINT1_vect_ms a b c s) AND 7 = 0"
  using assms by (simp add: PCINT1_ms_start_stop timer_cfg_ms_def)

lemma start_s_restored:
  assumes "\<not> clock_running s" and "start_stop_edge a s" and "timer_cfg_s s"
  shows "TCCR1B (PCINT1_vect_s a b c s) = TCCR1B main_init_s"
  using assms by (simp add: PCINT1_s_start_stop timer_cfg_s_def main_init_s_def)

lemma start_ms_restored:
  assumes "\<not> clock_running s" and "start_stop_edge a s" and "timer_cfg_ms s"
  shows "TCCR0B (PCINT1_vect_ms a b c s) = TCCR0B main_init_ms"
  using assms by (simp add: PCINT1_ms_start_stop timer_cfg_ms_def main_init_ms_def)

text \<open>The tick handlers do not look at \<open>clock_running\<close>, and every call moves \<open>time\<close>.\<close>

lemma TIMER1_ignores_running:
  "TIMER1_COMPA_vect (s\<lparr>clock_running := r\<rparr>) = (TIMER1_COMPA_vect s)\<lparr>clock_running := r\<rparr>"
  by (simp add: TIMER1_COMPA_vect_def Let_def)

lemma TIMER0_ignores_running:
  "TIMER0_COMPA_vect (s\<lparr>clock_running := r\<rparr>) = (TIMER0_COMPA_vect s)\<lparr>clock_running := r\<rparr>"
  by (simp add: TIMER0_COMPA_vect_def Let_def)

lemma TIMER1_moves:
  assumes r: "time_in_range_s s" and d: "step s = 1 \<or> step s = - 1"
  shows "time (TIMER1_COMPA_vect s) \<noteq> time s"
proof
  assume e: "time (TIMER1_COMPA_vect s) = time s"
  from r have lt: "unat (time s) < 60"
    by (simp add: time_in_range_s_def)
  from d show False
  proof
    assume "step s = 1"
    with lt have "unat (time (TIMER1_COMPA_vect s)) = (unat (time s) + 1) mod 60"
      by (rule TIMER1_up)
    with e lt show False
      by (simp add: mod_if split: if_splits)
  next
    assume "step s = - 1"
    with lt have "unat (time (TIMER1_COMPA_vect s)) = (unat (time s) + 60 - 1) mod 60"
      by (rule TIMER1_down)
    with e lt show False
      by (simp add: mod_if split: if_splits)
  qed
qed

lemma TIMER0_moves:
  assumes r: "time_in_range_ms s" and d: "step s = 1 \<or> step s = - 1"
  shows "time (TIMER0_COMPA_vect s) \<noteq> time s"
proof
  assume e: "time (TIMER0_COMPA_vect s) = time s"
  from r have lt: "unat (time s) < 60000"
    by (simp add: time_in_range_ms_def)
  from d show False
  proof
    assume "step s = 1"
    with lt have "unat (time (TIMER0_COMPA_vect s)) = (unat (time s) + 1) mod 60000"
      by (rule TIMER0_up)
    with e lt show False
      by (simp add: mod_if split: if_splits)
  next
    assume "step s = - 1"
    with lt have "unat (time (TIMER0_COMPA_vect s)) = (unat (time s) + 60000 - 1) mod 60000"
      by (rule TIMER0_down)
    with e lt show False
      by (simp add: mod_if split: if_splits)
  qed
qed

text \<open>
  Claim C5, as amended. On a press edge of the start/stop button while \<open>clock_running\<close>
  is true, the handler sets \<open>clock_running\<close> to false and clears the bits of its mask
  in the timer's control register; with the register as \<^verbatim>\<open>main\<close> configured it, all
  three clock-select bits are then 0. The start/stop block never writes \<open>time\<close>, and the
  call leaves \<open>time\<close> unchanged unless the reset button has an edge in the same call. On
  a press edge while \<open>clock_running\<close> is false the handler sets the bits of the mask and
  sets \<open>clock_running\<close> to true, which restores the configured register value. The
  register has its configured or its stopped value after every run of events. The code
  does nothing else to freeze \<open>time\<close>: the tick handler does not test \<open>clock_running\<close>,
  and a call of it changes \<open>time\<close> whether the clock is stopped or not. Both clocks.
\<close>

theorem start_stop_toggles:
  "(\<forall>p s. time (start_stop_s p s) = time s) \<and>
   (\<forall>s a b c. clock_running s \<and> start_stop_edge a s \<longrightarrow>
      \<not> clock_running (PCINT1_vect_s a b c s) \<and>
      TCCR1B (PCINT1_vect_s a b c s) = TCCR1B s AND NOT 3 \<and>
      (\<not> reset_edge c s \<longrightarrow> time (PCINT1_vect_s a b c s) = time s)) \<and>
   (\<forall>s a b c. clock_running s \<and> start_stop_edge a s \<and> timer_cfg_s s \<longrightarrow>
      TCCR1B (PCINT1_vect_s a b c s) AND 7 = 0) \<and>
   (\<forall>s a b c. \<not> clock_running s \<and> start_stop_edge a s \<longrightarrow>
      clock_running (PCINT1_vect_s a b c s) \<and>
      TCCR1B (PCINT1_vect_s a b c s) = TCCR1B s OR 3) \<and>
   (\<forall>s a b c. \<not> clock_running s \<and> start_stop_edge a s \<and> timer_cfg_s s \<longrightarrow>
      TCCR1B (PCINT1_vect_s a b c s) = TCCR1B main_init_s \<and>
      TCCR1B (PCINT1_vect_s a b c s) AND 7 \<noteq> 0) \<and>
   (\<forall>es. timer_cfg_s (run_s es main_init_s)) \<and>
   (\<forall>s r. TIMER1_COMPA_vect (s\<lparr>clock_running := r\<rparr>) =
      (TIMER1_COMPA_vect s)\<lparr>clock_running := r\<rparr>) \<and>
   (\<forall>s. time_in_range_s s \<and> (step s = 1 \<or> step s = - 1) \<longrightarrow>
      time (TIMER1_COMPA_vect s) \<noteq> time s) \<and>
   (\<forall>p s. time (start_stop_ms p s) = time s) \<and>
   (\<forall>s a b c. clock_running s \<and> start_stop_edge a s \<longrightarrow>
      \<not> clock_running (PCINT1_vect_ms a b c s) \<and>
      TCCR0B (PCINT1_vect_ms a b c s) = TCCR0B s AND NOT 2 \<and>
      (\<not> reset_edge c s \<longrightarrow> time (PCINT1_vect_ms a b c s) = time s)) \<and>
   (\<forall>s a b c. clock_running s \<and> start_stop_edge a s \<and> timer_cfg_ms s \<longrightarrow>
      TCCR0B (PCINT1_vect_ms a b c s) AND 7 = 0) \<and>
   (\<forall>s a b c. \<not> clock_running s \<and> start_stop_edge a s \<longrightarrow>
      clock_running (PCINT1_vect_ms a b c s) \<and>
      TCCR0B (PCINT1_vect_ms a b c s) = TCCR0B s OR 2) \<and>
   (\<forall>s a b c. \<not> clock_running s \<and> start_stop_edge a s \<and> timer_cfg_ms s \<longrightarrow>
      TCCR0B (PCINT1_vect_ms a b c s) = TCCR0B main_init_ms \<and>
      TCCR0B (PCINT1_vect_ms a b c s) AND 7 \<noteq> 0) \<and>
   (\<forall>es. timer_cfg_ms (run_ms es main_init_ms)) \<and>
   (\<forall>s r. TIMER0_COMPA_vect (s\<lparr>clock_running := r\<rparr>) =
      (TIMER0_COMPA_vect s)\<lparr>clock_running := r\<rparr>) \<and>
   (\<forall>s. time_in_range_ms s \<and> (step s = 1 \<or> step s = - 1) \<longrightarrow>
      time (TIMER0_COMPA_vect s) \<noteq> time s)"
proof (intro conjI allI impI)
  fix s :: seconds_clock and a b c :: u8
  assume "clock_running s \<and> start_stop_edge a s \<and> timer_cfg_s s"
  then have h: "clock_running s" "start_stop_edge a s" "timer_cfg_s s"
    by simp_all
  show "TCCR1B (PCINT1_vect_s a b c s) AND 7 = 0"
    using h by (rule stop_s_bits)
next
  fix s :: millis_clock and a b c :: u8
  assume "clock_running s \<and> start_stop_edge a s \<and> timer_cfg_ms s"
  then have h: "clock_running s" "start_stop_edge a s" "timer_cfg_ms s"
    by simp_all
  show "TCCR0B (PCINT1_vect_ms a b c s) AND 7 = 0"
    using h by (rule stop_ms_bits)
next
  fix s :: seconds_clock and a b c :: u8
  assume "\<not> clock_running s \<and> start_stop_edge a s \<and> timer_cfg_s s"
  then have h: "\<not> clock_running s" "start_stop_edge a s" "timer_cfg_s s"
    by simp_all
  show r: "TCCR1B (PCINT1_vect_s a b c s) = TCCR1B main_init_s"
    using h by (rule start_s_restored)
  show "TCCR1B (PCINT1_vect_s a b c s) AND 7 \<noteq> 0"
    by (simp add: r main_init_s_def)
next
  fix s :: millis_clock and a b c :: u8
  assume "\<not> clock_running s \<and> start_stop_edge a s \<and> timer_cfg_ms s"
  then have h: "\<not> clock_running s" "start_stop_edge a s" "timer_cfg_ms s"
    by simp_all
  show r: "TCCR0B (PCINT1_vect_ms a b c s) = TCCR0B main_init_ms"
    using h by (rule start_ms_restored)
  show "TCCR0B (PCINT1_vect_ms a b c s) AND 7 \<noteq> 0"
    by (simp add: r main_init_ms_def)
next
  fix es
  show "timer_cfg_s (run_s es main_init_s)"
    using main_init_s_cfg by (rule run_s_cfg)
next
  fix es
  show "timer_cfg_ms (run_ms es main_init_ms)"
    using main_init_ms_cfg by (rule run_ms_cfg)
next
  fix s :: seconds_clock
  assume "time_in_range_s s \<and> (step s = 1 \<or> step s = - 1)"
  then show "time (TIMER1_COMPA_vect s) \<noteq> time s"
    by (simp add: TIMER1_moves)
next
  fix s :: millis_clock
  assume "time_in_range_ms s \<and> (step s = 1 \<or> step s = - 1)"
  then show "time (TIMER0_COMPA_vect s) \<noteq> time s"
    by (simp add: TIMER0_moves)
qed (simp_all add: start_stop_s_time start_stop_ms_time PCINT1_s_start_stop PCINT1_ms_start_stop
    PCINT1_s_time PCINT1_ms_time TIMER1_ignores_running TIMER0_ignores_running)

theorem start_stop_toggles_witness:
  "clock_running (main_init_s\<lparr>time := 30\<rparr>) \<and> start_stop_edge 126 (main_init_s\<lparr>time := 30\<rparr>) \<and> timer_cfg_s (main_init_s\<lparr>time := 30\<rparr>) \<and> \<not> reset_edge 127 (main_init_s\<lparr>time := 30\<rparr>) \<and>
   \<not> clock_running (PCINT1_vect_s 126 127 127 (main_init_s\<lparr>time := 30\<rparr>)) \<and>
   TCCR1B (PCINT1_vect_s 126 127 127 (main_init_s\<lparr>time := 30\<rparr>)) = 8 \<and>
   TCCR1B (PCINT1_vect_s 126 127 127 (main_init_s\<lparr>time := 30\<rparr>)) AND 7 = 0 \<and>
   time (PCINT1_vect_s 126 127 127 (main_init_s\<lparr>time := 30\<rparr>)) = 30 \<and>
   \<not> clock_running (main_init_s\<lparr>clock_running := False, TCCR1B := 8\<rparr>) \<and> start_stop_edge 126 (main_init_s\<lparr>clock_running := False, TCCR1B := 8\<rparr>) \<and> timer_cfg_s (main_init_s\<lparr>clock_running := False, TCCR1B := 8\<rparr>) \<and>
   clock_running (PCINT1_vect_s 126 127 127 (main_init_s\<lparr>clock_running := False, TCCR1B := 8\<rparr>)) \<and>
   TCCR1B (PCINT1_vect_s 126 127 127 (main_init_s\<lparr>clock_running := False, TCCR1B := 8\<rparr>)) = 11 \<and>
   time_in_range_s (main_init_s\<lparr>clock_running := False, TCCR1B := 8\<rparr>) \<and> step (main_init_s\<lparr>clock_running := False, TCCR1B := 8\<rparr>) = 1 \<and> time (TIMER1_COMPA_vect (main_init_s\<lparr>clock_running := False, TCCR1B := 8\<rparr>)) \<noteq> time (main_init_s\<lparr>clock_running := False, TCCR1B := 8\<rparr>) \<and>
   clock_running (main_init_ms\<lparr>time := 30000\<rparr>) \<and> start_stop_edge 126 (main_init_ms\<lparr>time := 30000\<rparr>) \<and> timer_cfg_ms (main_init_ms\<lparr>time := 30000\<rparr>) \<and> \<not> reset_edge 127 (main_init_ms\<lparr>time := 30000\<rparr>) \<and>
   \<not> clock_running (PCINT1_vect_ms 126 127 127 (main_init_ms\<lparr>time := 30000\<rparr>)) \<and>
   TCCR0B (PCINT1_vect_ms 126 127 127 (main_init_ms\<lparr>time := 30000\<rparr>)) = 0 \<and>
   TCCR0B (PCINT1_vect_ms 126 127 127 (main_init_ms\<lparr>time := 30000\<rparr>)) AND 7 = 0 \<and>
   time (PCINT1_vect_ms 126 127 127 (main_init_ms\<lparr>time := 30000\<rparr>)) = 30000 \<and>
   \<not> clock_running (main_init_ms\<lparr>clock_running := False, TCCR0B := 0\<rparr>) \<and> start_stop_edge 126 (main_init_ms\<lparr>clock_running := False, TCCR0B := 0\<rparr>) \<and> timer_cfg_ms (main_init_ms\<lparr>clock_running := False, TCCR0B := 0\<rparr>) \<and>
   clock_running (PCINT1_vect_ms 126 127 127 (main_init_ms\<lparr>clock_running := False, TCCR0B := 0\<rparr>)) \<and>
   TCCR0B (PCINT1_vect_ms 126 127 127 (main_init_ms\<lparr>clock_running := False, TCCR0B := 0\<rparr>)) = 2 \<and>
   time_in_range_ms (main_init_ms\<lparr>clock_running := False, TCCR0B := 0\<rparr>) \<and> step (main_init_ms\<lparr>clock_running := False, TCCR0B := 0\<rparr>) = 1 \<and> time (TIMER0_COMPA_vect (main_init_ms\<lparr>clock_running := False, TCCR0B := 0\<rparr>)) \<noteq> time (main_init_ms\<lparr>clock_running := False, TCCR0B := 0\<rparr>)"
proof -
  note T = start_stop_toggles
  have hs1: "clock_running (main_init_s\<lparr>time := 30\<rparr>)" "start_stop_edge 126 (main_init_s\<lparr>time := 30\<rparr>)" "timer_cfg_s (main_init_s\<lparr>time := 30\<rparr>)" "\<not> reset_edge 127 (main_init_s\<lparr>time := 30\<rparr>)"
    by (simp_all add: main_init_s_def start_stop_edge_def reset_edge_def timer_cfg_s_def)
  have hs2: "\<not> clock_running (main_init_s\<lparr>clock_running := False, TCCR1B := 8\<rparr>)" "start_stop_edge 126 (main_init_s\<lparr>clock_running := False, TCCR1B := 8\<rparr>)" "timer_cfg_s (main_init_s\<lparr>clock_running := False, TCCR1B := 8\<rparr>)"
    "time_in_range_s (main_init_s\<lparr>clock_running := False, TCCR1B := 8\<rparr>)" "step (main_init_s\<lparr>clock_running := False, TCCR1B := 8\<rparr>) = 1"
    by (simp_all add: main_init_s_def start_stop_edge_def timer_cfg_s_def time_in_range_s_def)
  have hm1: "clock_running (main_init_ms\<lparr>time := 30000\<rparr>)" "start_stop_edge 126 (main_init_ms\<lparr>time := 30000\<rparr>)" "timer_cfg_ms (main_init_ms\<lparr>time := 30000\<rparr>)" "\<not> reset_edge 127 (main_init_ms\<lparr>time := 30000\<rparr>)"
    by (simp_all add: main_init_ms_def start_stop_edge_def reset_edge_def timer_cfg_ms_def)
  have hm2: "\<not> clock_running (main_init_ms\<lparr>clock_running := False, TCCR0B := 0\<rparr>)" "start_stop_edge 126 (main_init_ms\<lparr>clock_running := False, TCCR0B := 0\<rparr>)" "timer_cfg_ms (main_init_ms\<lparr>clock_running := False, TCCR0B := 0\<rparr>)"
    "time_in_range_ms (main_init_ms\<lparr>clock_running := False, TCCR0B := 0\<rparr>)" "step (main_init_ms\<lparr>clock_running := False, TCCR0B := 0\<rparr>) = 1"
    by (simp_all add: main_init_ms_def start_stop_edge_def timer_cfg_ms_def time_in_range_ms_def)
  have v: "TCCR1B (main_init_s\<lparr>time := 30\<rparr>) AND NOT 3 = 8" "time (main_init_s\<lparr>time := 30\<rparr>) = 30" "TCCR1B main_init_s = 11"
    "TCCR0B (main_init_ms\<lparr>time := 30000\<rparr>) AND NOT 2 = 0" "time (main_init_ms\<lparr>time := 30000\<rparr>) = 30000" "TCCR0B main_init_ms = 2"
    by (simp_all add: main_init_s_def main_init_ms_def)
  have cs1: "clock_running (main_init_s\<lparr>time := 30\<rparr>) \<and> start_stop_edge 126 (main_init_s\<lparr>time := 30\<rparr>)"
    by (intro conjI) (rule hs1)+
  have cs1': "clock_running (main_init_s\<lparr>time := 30\<rparr>) \<and> start_stop_edge 126 (main_init_s\<lparr>time := 30\<rparr>) \<and> timer_cfg_s (main_init_s\<lparr>time := 30\<rparr>)"
    by (intro conjI) (rule hs1)+
  have cs2: "\<not> clock_running (main_init_s\<lparr>clock_running := False, TCCR1B := 8\<rparr>) \<and> start_stop_edge 126 (main_init_s\<lparr>clock_running := False, TCCR1B := 8\<rparr>)"
    by (intro conjI) (rule hs2)+
  have cs2': "\<not> clock_running (main_init_s\<lparr>clock_running := False, TCCR1B := 8\<rparr>) \<and> start_stop_edge 126 (main_init_s\<lparr>clock_running := False, TCCR1B := 8\<rparr>) \<and> timer_cfg_s (main_init_s\<lparr>clock_running := False, TCCR1B := 8\<rparr>)"
    by (intro conjI) (rule hs2)+
  have cs3: "time_in_range_s (main_init_s\<lparr>clock_running := False, TCCR1B := 8\<rparr>) \<and> (step (main_init_s\<lparr>clock_running := False, TCCR1B := 8\<rparr>) = 1 \<or> step (main_init_s\<lparr>clock_running := False, TCCR1B := 8\<rparr>) = - 1)"
    by (intro conjI disjI1) (rule hs2)+
  have cm1: "clock_running (main_init_ms\<lparr>time := 30000\<rparr>) \<and> start_stop_edge 126 (main_init_ms\<lparr>time := 30000\<rparr>)"
    by (intro conjI) (rule hm1)+
  have cm1': "clock_running (main_init_ms\<lparr>time := 30000\<rparr>) \<and> start_stop_edge 126 (main_init_ms\<lparr>time := 30000\<rparr>) \<and> timer_cfg_ms (main_init_ms\<lparr>time := 30000\<rparr>)"
    by (intro conjI) (rule hm1)+
  have cm2: "\<not> clock_running (main_init_ms\<lparr>clock_running := False, TCCR0B := 0\<rparr>) \<and> start_stop_edge 126 (main_init_ms\<lparr>clock_running := False, TCCR0B := 0\<rparr>)"
    by (intro conjI) (rule hm2)+
  have cm2': "\<not> clock_running (main_init_ms\<lparr>clock_running := False, TCCR0B := 0\<rparr>) \<and> start_stop_edge 126 (main_init_ms\<lparr>clock_running := False, TCCR0B := 0\<rparr>) \<and> timer_cfg_ms (main_init_ms\<lparr>clock_running := False, TCCR0B := 0\<rparr>)"
    by (intro conjI) (rule hm2)+
  have cm3: "time_in_range_ms (main_init_ms\<lparr>clock_running := False, TCCR0B := 0\<rparr>) \<and> (step (main_init_ms\<lparr>clock_running := False, TCCR0B := 0\<rparr>) = 1 \<or> step (main_init_ms\<lparr>clock_running := False, TCCR0B := 0\<rparr>) = - 1)"
    by (intro conjI disjI1) (rule hm2)+
  note s1 = T [THEN conjunct2, THEN conjunct1, rule_format, OF cs1]
  note s2 = T [THEN conjunct2, THEN conjunct2, THEN conjunct1, rule_format, OF cs1']
  note s3 = T [THEN conjunct2, THEN conjunct2, THEN conjunct2, THEN conjunct1, rule_format, OF cs2]
  note s4 = T [THEN conjunct2, THEN conjunct2, THEN conjunct2, THEN conjunct2, THEN conjunct1,
      rule_format, OF cs2']
  note s5 = T [THEN conjunct2, THEN conjunct2, THEN conjunct2, THEN conjunct2, THEN conjunct2,
      THEN conjunct2, THEN conjunct2, THEN conjunct1, rule_format, OF cs3]
  note U = T [THEN conjunct2, THEN conjunct2, THEN conjunct2, THEN conjunct2, THEN conjunct2,
      THEN conjunct2, THEN conjunct2, THEN conjunct2]
  note m1 = U [THEN conjunct2, THEN conjunct1, rule_format, OF cm1]
  note m2 = U [THEN conjunct2, THEN conjunct2, THEN conjunct1, rule_format, OF cm1']
  note m3 = U [THEN conjunct2, THEN conjunct2, THEN conjunct2, THEN conjunct1, rule_format, OF cm2]
  note m4 = U [THEN conjunct2, THEN conjunct2, THEN conjunct2, THEN conjunct2, THEN conjunct1,
      rule_format, OF cm2']
  note m5 = U [THEN conjunct2, THEN conjunct2, THEN conjunct2, THEN conjunct2, THEN conjunct2,
      THEN conjunct2, THEN conjunct2, rule_format, OF cm3]
  have a1: "\<not> clock_running (PCINT1_vect_s 126 127 127 (main_init_s\<lparr>time := 30\<rparr>))"
    "TCCR1B (PCINT1_vect_s 126 127 127 (main_init_s\<lparr>time := 30\<rparr>)) = 8"
    "time (PCINT1_vect_s 126 127 127 (main_init_s\<lparr>time := 30\<rparr>)) = 30"
    using s1 [of 127 127] hs1(4) by (simp_all only: v simp_thms)
  have a2: "TCCR1B (PCINT1_vect_s 126 127 127 (main_init_s\<lparr>time := 30\<rparr>)) AND 7 = 0"
    by (rule s2)
  have a3: "clock_running (PCINT1_vect_s 126 127 127 (main_init_s\<lparr>clock_running := False, TCCR1B := 8\<rparr>))"
    using s3 [of 127 127] by (simp only:)
  have a4: "TCCR1B (PCINT1_vect_s 126 127 127 (main_init_s\<lparr>clock_running := False, TCCR1B := 8\<rparr>)) = 11"
    using s4 [of 127 127] by (simp only: v)
  have b1: "\<not> clock_running (PCINT1_vect_ms 126 127 127 (main_init_ms\<lparr>time := 30000\<rparr>))"
    "TCCR0B (PCINT1_vect_ms 126 127 127 (main_init_ms\<lparr>time := 30000\<rparr>)) = 0"
    "time (PCINT1_vect_ms 126 127 127 (main_init_ms\<lparr>time := 30000\<rparr>)) = 30000"
    using m1 [of 127 127] hm1(4) by (simp_all only: v simp_thms)
  have b2: "TCCR0B (PCINT1_vect_ms 126 127 127 (main_init_ms\<lparr>time := 30000\<rparr>)) AND 7 = 0"
    by (rule m2)
  have b3: "clock_running (PCINT1_vect_ms 126 127 127 (main_init_ms\<lparr>clock_running := False, TCCR0B := 0\<rparr>))"
    using m3 [of 127 127] by (simp only:)
  have b4: "TCCR0B (PCINT1_vect_ms 126 127 127 (main_init_ms\<lparr>clock_running := False, TCCR0B := 0\<rparr>)) = 2"
    using m4 [of 127 127] by (simp only: v)
  show ?thesis
    by (intro conjI) (rule hs1 hs2 hm1 hm2 a1 a2 a3 a4 s5 b1 b2 b3 b4 m5)+
qed

text \<open>
  Claim C5 as it was stated fails: after the start/stop press has stopped the clock,
  a call of the tick handler still changes \<open>time\<close> (30 to 31, and 30000 to 30001).
\<close>

theorem tick_after_stop_counterexample:
  "clock_running (main_init_s\<lparr>time := 30\<rparr>) \<and> start_stop_edge 126 (main_init_s\<lparr>time := 30\<rparr>) \<and>
   \<not> clock_running (PCINT1_vect_s 126 127 127 (main_init_s\<lparr>time := 30\<rparr>)) \<and>
   TCCR1B (PCINT1_vect_s 126 127 127 (main_init_s\<lparr>time := 30\<rparr>)) AND 7 = 0 \<and>
   time (PCINT1_vect_s 126 127 127 (main_init_s\<lparr>time := 30\<rparr>)) = 30 \<and>
   time (TIMER1_COMPA_vect (PCINT1_vect_s 126 127 127 (main_init_s\<lparr>time := 30\<rparr>))) = 31 \<and>
   time (run_s [Pin_change 126 127 127, Compare_match] (main_init_s\<lparr>time := 30\<rparr>)) = 31 \<and>
   clock_running (main_init_ms\<lparr>time := 30000\<rparr>) \<and> start_stop_edge 126 (main_init_ms\<lparr>time := 30000\<rparr>) \<and>
   \<not> clock_running (PCINT1_vect_ms 126 127 127 (main_init_ms\<lparr>time := 30000\<rparr>)) \<and>
   TCCR0B (PCINT1_vect_ms 126 127 127 (main_init_ms\<lparr>time := 30000\<rparr>)) AND 7 = 0 \<and>
   time (PCINT1_vect_ms 126 127 127 (main_init_ms\<lparr>time := 30000\<rparr>)) = 30000 \<and>
   time (TIMER0_COMPA_vect (PCINT1_vect_ms 126 127 127 (main_init_ms\<lparr>time := 30000\<rparr>))) = 30001 \<and>
   time (run_ms [Pin_change 126 127 127, Compare_match] (main_init_ms\<lparr>time := 30000\<rparr>)) = 30001"
  by (simp add: main_init_s_def main_init_ms_def start_stop_edge_def
      PCINT1_vect_s_def PCINT1_vect_ms_def start_stop_s_def start_stop_ms_def
      swap_mode_s_def swap_mode_ms_def reset_s_def reset_ms_def
      TIMER1_COMPA_vect_def TIMER0_COMPA_vect_def Let_def)

section \<open>The 16-bit read of the milliseconds loop\<close>

lemma join_split: "join_bytes (high_byte w) (low_byte w) = w"
  unfolding join_bytes_def high_byte_def low_byte_def
  by (rule bit_word_eqI) (auto simp add: bit_simps)

lemma read_time_ms_quiet: "read_time_ms bo False s = (time s, s)"
  by (cases bo) (simp_all add: read_time_ms_def join_split)

lemma run_ms_append: "run_ms (es @ fs) s = run_ms fs (run_ms es s)"
  by (induction es arbitrary: s) simp_all

lemma TIMER0_step_up:
  assumes "step s = 1" and "unat (time s) + 1 < 60000"
  shows "TIMER0_COMPA_vect s = s\<lparr>time := time s + 1\<rparr>"
  using assms
  by (simp add: TIMER0_COMPA_vect_def Let_def word_unat_eq_iff unat_word_ariths)

lemma ticks_up_ms:
  assumes "step s = 1" and "unat (time s) + n < 60000"
  shows "run_ms (replicate n Compare_match) s = s\<lparr>time := time s + of_nat n\<rparr>"
  using assms
proof (induction n arbitrary: s)
  case 0
  then show ?case by simp
next
  case (Suc n)
  let ?s = "s\<lparr>time := time s + 1\<rparr>"
  from Suc.prems have t: "TIMER0_COMPA_vect s = ?s"
    by (simp add: TIMER0_step_up)
  from Suc.prems have "unat (time s + 1) = unat (time s) + 1"
    by (simp add: unat_word_ariths)
  with Suc.prems have "step ?s = 1" "unat (time ?s) + n < 60000"
    by simp_all
  then have "run_ms (replicate n Compare_match) ?s = ?s\<lparr>time := time ?s + of_nat n\<rparr>"
    by (rule Suc.IH)
  then show ?case
    by (simp add: t add.assoc)
qed

text \<open>
  Claim C8. The claim says that the display loop never observes a torn value of
  \<open>time\<close>, the 16-bit read of the milliseconds clock being done with interrupts
  disabled. The loop of the milliseconds clock reads \<open>time\<close> with interrupts enabled,
  and the read tears. After 4096 ticks and a press of the swap button \<open>time\<close> is 4096
  and \<open>step\<close> is \<open>-1\<close>; if the tick handler runs between the two byte loads, low byte
  first, the loop reads 3840, a value \<open>time\<close> never held (it held 4096 and then 4095),
  and displays the digit 3 where both 4096 and 4095 display 4. With the high byte
  loaded first the same happens after 4095 ticks, counting up.
\<close>

theorem torn_read_ms:
  "run_ms (replicate 4096 Compare_match @ [Pin_change 127 125 127]) main_init_ms = (main_init_ms\<lparr>time := 4096, TCNT0 := 124, step := - 1, clock_ascending := False, swap_mode_button_was_pressed := True\<rparr>) \<and>
   time (main_init_ms\<lparr>time := 4096, TCNT0 := 124, step := - 1, clock_ascending := False, swap_mode_button_was_pressed := True\<rparr>) = 4096 \<and> time (TIMER0_COMPA_vect (main_init_ms\<lparr>time := 4096, TCNT0 := 124, step := - 1, clock_ascending := False, swap_mode_button_was_pressed := True\<rparr>)) = 4095 \<and>
   read_time_ms Low_first True (main_init_ms\<lparr>time := 4096, TCNT0 := 124, step := - 1, clock_ascending := False, swap_mode_button_was_pressed := True\<rparr>) = (3840, TIMER0_COMPA_vect (main_init_ms\<lparr>time := 4096, TCNT0 := 124, step := - 1, clock_ascending := False, swap_mode_button_was_pressed := True\<rparr>)) \<and>
   main_loop_ms Low_first False (main_init_ms\<lparr>time := 4096, TCNT0 := 124, step := - 1, clock_ascending := False, swap_mode_button_was_pressed := True\<rparr>) = Some ((main_init_ms\<lparr>time := 4096, TCNT0 := 124, step := - 1, clock_ascending := False, swap_mode_button_was_pressed := True\<rparr>)\<lparr>PORTB := 0x66, PORTD := 0x3F\<rparr>) \<and>
   main_loop_ms Low_first False (TIMER0_COMPA_vect (main_init_ms\<lparr>time := 4096, TCNT0 := 124, step := - 1, clock_ascending := False, swap_mode_button_was_pressed := True\<rparr>)) =
     Some ((TIMER0_COMPA_vect (main_init_ms\<lparr>time := 4096, TCNT0 := 124, step := - 1, clock_ascending := False, swap_mode_button_was_pressed := True\<rparr>))\<lparr>PORTB := 0x66, PORTD := 0x3F\<rparr>) \<and>
   main_loop_ms Low_first True (main_init_ms\<lparr>time := 4096, TCNT0 := 124, step := - 1, clock_ascending := False, swap_mode_button_was_pressed := True\<rparr>) =
     Some ((TIMER0_COMPA_vect (main_init_ms\<lparr>time := 4096, TCNT0 := 124, step := - 1, clock_ascending := False, swap_mode_button_was_pressed := True\<rparr>))\<lparr>PORTB := 0x4F, PORTD := 0x3F\<rparr>) \<and>
   run_ms (replicate 4095 Compare_match) main_init_ms = (main_init_ms\<lparr>time := 4095\<rparr>) \<and>
   time (main_init_ms\<lparr>time := 4095\<rparr>) = 4095 \<and> time (TIMER0_COMPA_vect (main_init_ms\<lparr>time := 4095\<rparr>)) = 4096 \<and>
   read_time_ms High_first True (main_init_ms\<lparr>time := 4095\<rparr>) = (3840, TIMER0_COMPA_vect (main_init_ms\<lparr>time := 4095\<rparr>)) \<and>
   main_loop_ms High_first False (main_init_ms\<lparr>time := 4095\<rparr>) = Some ((main_init_ms\<lparr>time := 4095\<rparr>)\<lparr>PORTB := 0x66, PORTD := 0x3F\<rparr>) \<and>
   main_loop_ms High_first False (TIMER0_COMPA_vect (main_init_ms\<lparr>time := 4095\<rparr>)) =
     Some ((TIMER0_COMPA_vect (main_init_ms\<lparr>time := 4095\<rparr>))\<lparr>PORTB := 0x66, PORTD := 0x3F\<rparr>) \<and>
   main_loop_ms High_first True (main_init_ms\<lparr>time := 4095\<rparr>) =
     Some ((TIMER0_COMPA_vect (main_init_ms\<lparr>time := 4095\<rparr>))\<lparr>PORTB := 0x4F, PORTD := 0x3F\<rparr>)"
proof -
  have i: "step main_init_ms = 1" "time main_init_ms = 0"
    by (simp_all add: main_init_ms_def)
  have up: "run_ms (replicate n Compare_match) main_init_ms = main_init_ms\<lparr>time := of_nat n\<rparr>"
    if "n < 60000" for n
    using ticks_up_ms [of main_init_ms n] that by (simp add: i)
  have rb: "run_ms (replicate 4095 Compare_match) main_init_ms = (main_init_ms\<lparr>time := 4095\<rparr>)"
    using up [of 4095] by simp
  have "run_ms (replicate 4096 Compare_match) main_init_ms = main_init_ms\<lparr>time := 4096\<rparr>"
    using up [of 4096] by simp
  then have ra: "run_ms (replicate 4096 Compare_match @ [Pin_change 127 125 127]) main_init_ms = (main_init_ms\<lparr>time := 4096, TCNT0 := 124, step := - 1, clock_ascending := False, swap_mode_button_was_pressed := True\<rparr>)"
    by (simp add: run_ms_append PCINT1_vect_ms_def start_stop_ms_def swap_mode_ms_def
        reset_ms_def Let_def main_init_ms_def TIMER_TOP_ms_def)
  have ta: "TIMER0_COMPA_vect (main_init_ms\<lparr>time := 4096, TCNT0 := 124, step := - 1, clock_ascending := False, swap_mode_button_was_pressed := True\<rparr>) = (main_init_ms\<lparr>time := 4096, TCNT0 := 124, step := - 1, clock_ascending := False, swap_mode_button_was_pressed := True\<rparr>)\<lparr>time := 4095\<rparr>"
    by (simp add: TIMER0_COMPA_vect_def Let_def main_init_ms_def)
  have tb: "TIMER0_COMPA_vect (main_init_ms\<lparr>time := 4095\<rparr>) = (main_init_ms\<lparr>time := 4095\<rparr>)\<lparr>time := 4096\<rparr>"
    by (simp add: TIMER0_COMPA_vect_def Let_def main_init_ms_def)
  have d: "digits_at 0 = Some 0x3F" "digits_at 3 = Some 0x4F" "digits_at 4 = Some 0x66"
    by (simp_all add: digits_at_def digits_hex)
  have la: "read_time_ms Low_first True (main_init_ms\<lparr>time := 4096, TCNT0 := 124, step := - 1, clock_ascending := False, swap_mode_button_was_pressed := True\<rparr>) = (3840, TIMER0_COMPA_vect (main_init_ms\<lparr>time := 4096, TCNT0 := 124, step := - 1, clock_ascending := False, swap_mode_button_was_pressed := True\<rparr>))"
    by (simp add: read_time_ms_def ta Let_def join_bytes_def high_byte_def low_byte_def)
  have lb: "read_time_ms High_first True (main_init_ms\<lparr>time := 4095\<rparr>) = (3840, TIMER0_COMPA_vect (main_init_ms\<lparr>time := 4095\<rparr>))"
    by (simp add: read_time_ms_def tb Let_def join_bytes_def high_byte_def low_byte_def)
  have qa: "main_loop_ms Low_first False (main_init_ms\<lparr>time := 4096, TCNT0 := 124, step := - 1, clock_ascending := False, swap_mode_button_was_pressed := True\<rparr>) = Some ((main_init_ms\<lparr>time := 4096, TCNT0 := 124, step := - 1, clock_ascending := False, swap_mode_button_was_pressed := True\<rparr>)\<lparr>PORTB := 0x66, PORTD := 0x3F\<rparr>)"
    "main_loop_ms Low_first False (TIMER0_COMPA_vect (main_init_ms\<lparr>time := 4096, TCNT0 := 124, step := - 1, clock_ascending := False, swap_mode_button_was_pressed := True\<rparr>)) =
     Some ((TIMER0_COMPA_vect (main_init_ms\<lparr>time := 4096, TCNT0 := 124, step := - 1, clock_ascending := False, swap_mode_button_was_pressed := True\<rparr>))\<lparr>PORTB := 0x66, PORTD := 0x3F\<rparr>)"
    by (simp_all add: main_loop_ms_def read_time_ms_quiet ta Let_def d)
  have qb: "main_loop_ms High_first False (main_init_ms\<lparr>time := 4095\<rparr>) = Some ((main_init_ms\<lparr>time := 4095\<rparr>)\<lparr>PORTB := 0x66, PORTD := 0x3F\<rparr>)"
    "main_loop_ms High_first False (TIMER0_COMPA_vect (main_init_ms\<lparr>time := 4095\<rparr>)) =
     Some ((TIMER0_COMPA_vect (main_init_ms\<lparr>time := 4095\<rparr>))\<lparr>PORTB := 0x66, PORTD := 0x3F\<rparr>)"
    by (simp_all add: main_loop_ms_def read_time_ms_quiet tb Let_def d)
  have wa: "main_loop_ms Low_first True (main_init_ms\<lparr>time := 4096, TCNT0 := 124, step := - 1, clock_ascending := False, swap_mode_button_was_pressed := True\<rparr>) =
     Some ((TIMER0_COMPA_vect (main_init_ms\<lparr>time := 4096, TCNT0 := 124, step := - 1, clock_ascending := False, swap_mode_button_was_pressed := True\<rparr>))\<lparr>PORTB := 0x4F, PORTD := 0x3F\<rparr>)"
    by (simp add: main_loop_ms_def la Let_def d)
  have wb: "main_loop_ms High_first True (main_init_ms\<lparr>time := 4095\<rparr>) =
     Some ((TIMER0_COMPA_vect (main_init_ms\<lparr>time := 4095\<rparr>))\<lparr>PORTB := 0x4F, PORTD := 0x3F\<rparr>)"
    by (simp add: main_loop_ms_def lb Let_def d)
  have v: "time (main_init_ms\<lparr>time := 4096, TCNT0 := 124, step := - 1, clock_ascending := False, swap_mode_button_was_pressed := True\<rparr>) = 4096" "time (TIMER0_COMPA_vect (main_init_ms\<lparr>time := 4096, TCNT0 := 124, step := - 1, clock_ascending := False, swap_mode_button_was_pressed := True\<rparr>)) = 4095"
    "time (main_init_ms\<lparr>time := 4095\<rparr>) = 4095" "time (TIMER0_COMPA_vect (main_init_ms\<lparr>time := 4095\<rparr>)) = 4096"
    by (simp_all add: ta tb)
  show ?thesis
    by (intro conjI) (rule ra rb v la lb qa qb wa wb)+
qed

end
